theory Spec2Isabelle
  imports Complex_Main "HOL-Library.Sublist" "HOL-Library.Product_Lexorder"
    "HOL-Library.Log_Nat" "HOL-Library.Multiset" "HOL-Library.Word"
begin

section \<open>Strings\<close>

text \<open>
  A Python \<open>str\<close> is modelled by its UTF-8 byte string (\<^typ>\<open>string\<close>, a list of 8-bit
  characters). UTF-8 is self-synchronising, so one text occurs in another exactly when
  its bytes occur in the other's bytes.

  \<open>str.lower()\<close> and \<open>str.strip()\<close> are the interpreter's own, driven by the Unicode
  tables of cased letters and of white space. The model takes the two as the parameter
  \<open>S\<close> of every function that calls them, so what is proved holds for the functions of
  the interpreter whatever the tables hold.
\<close>

record str_ops =
  str_lower :: "string \<Rightarrow> string"
  str_strip :: "string \<Rightarrow> string"

text \<open>\<open>text.startswith(k)\<close>, and the substring test \<open>k in text\<close> as a scan over the
  start positions of \<open>text\<close>.\<close>

fun startswith :: "string \<Rightarrow> string \<Rightarrow> bool" where
  "startswith t [] = True"
| "startswith [] (k # ks) = False"
| "startswith (c # cs) (k # ks) = (c = k \<and> startswith cs ks)"

fun str_in :: "string \<Rightarrow> string \<Rightarrow> bool" where
  "str_in k [] = (k = [])"
| "str_in k (c # cs) = (startswith (c # cs) k \<or> str_in k cs)"

text \<open>\<open>any(keyword in text for keyword in keywords)\<close>\<close>

definition any_keyword_in :: "string list \<Rightarrow> string \<Rightarrow> bool" where
  "any_keyword_in keywords text = list_ex (\<lambda>keyword. str_in keyword text) keywords"


section \<open>AIService: the keyword tables\<close>

definition LUXURY_KEYWORDS :: "string list" where
  "LUXURY_KEYWORDS =
     [''luxury'', ''premium'', ''5-star'', ''five star'', ''resort'', ''palace'',
      ''heritage'', ''boutique'', ''fine dining'', ''rooftop'', ''spa'', ''golf'',
      ''marriott'', ''taj'', ''hyatt'', ''hilton'', ''oberoi'', ''itc'', ''leela'',
      ''expensive'', ''high-end'', ''exclusive'', ''private'', ''suite'']"

definition BUDGET_KEYWORDS :: "string list" where
  "BUDGET_KEYWORDS =
     [''budget'', ''cheap'', ''economy'', ''hostel'', ''backpacker'', ''dhaba'',
      ''street food'', ''cafe'', ''inexpensive'', ''affordable'', ''low-cost'',
      ''zostel'', ''free'', ''complimentary'', ''no charge'']"

definition MODERATE_KEYWORDS :: "string list" where
  "MODERATE_KEYWORDS =
     [''mid-range'', ''moderate'', ''3-star'', ''three star'', ''comfortable'',
      ''decent'', ''reasonable'', ''standard'', ''regular'', ''casual'']"

text \<open>The price symbols: one, two and three rupee signs (U+20B9, the bytes E2 82 B9).\<close>

definition rupee :: string where
  "rupee = [CHR 0xE2, CHR 0x82, CHR 0xB9]"

definition rupee1 :: string where "rupee1 = rupee"
definition rupee2 :: string where "rupee2 = rupee @ rupee"
definition rupee3 :: string where "rupee3 = rupee @ rupee @ rupee"


section \<open>AIService.estimate_price_range\<close>

text \<open>The rating is a number compared with 4.5 and 4.0, both exact in binary floating
  point, so a rational models the comparison exactly.\<close>

definition estimate_price_range :: "str_ops \<Rightarrow> string \<Rightarrow> string \<Rightarrow> rat \<Rightarrow> string" where
  "estimate_price_range S name kinds rating =
     (let text = str_lower S (name @ '' '' @ kinds) in
      if any_keyword_in LUXURY_KEYWORDS text then rupee3
      else if any_keyword_in BUDGET_KEYWORDS text then rupee1
      else if any_keyword_in MODERATE_KEYWORDS text then rupee2
      else if rating \<ge> 4.5 then rupee3
      else if rating \<ge> 4.0 then rupee2
      else rupee1)"


section \<open>Binary floating point\<close>

text \<open>
  A Python \<open>float\<close> is an IEEE 754 double. A finite double is a rational number, and the
  model works with that rational: \<open>fl x\<close> is the double nearest to a rational \<open>x\<close>
  (53 significant bits, ties to the even significand), for \<open>x\<close> in the normal range,
  which holds every number these functions meet. An arithmetic operation on
  doubles is the exact operation followed by \<open>fl\<close>.
\<close>

definition round_half_even :: "rat \<Rightarrow> int" where
  "round_half_even x =
     (let f = \<lfloor>x\<rfloor>; d = x - of_int f in
      if d < 1/2 then f
      else if d > 1/2 then f + 1
      else if even f then f else f + 1)"

text \<open>The exponent \<open>e\<close> with \<open>2 ^ e \<le> x < 2 ^ (e + 1)\<close>, for \<open>x > 0\<close>.\<close>

definition binade :: "rat \<Rightarrow> int" where
  "binade x =
     (if x \<ge> 1 then int (floorlog 2 (nat \<lfloor>x\<rfloor>)) - 1
      else - int (floorlog 2 (nat (\<lceil>1 / x\<rceil> - 1))))"

definition fl :: "rat \<Rightarrow> rat" where
  "fl x =
     (if x = 0 then 0
      else let u = 2 powi (binade \<bar>x\<bar> - 52) in of_int (round_half_even (x / u)) * u)"

text \<open>
  \<open>round(x, ndigits)\<close> on a double: CPython takes the decimal with \<open>ndigits\<close> digits
  nearest to the exact value of \<open>x\<close> (ties to even) and returns the double nearest to
  that decimal.
\<close>

definition py_round :: "rat \<Rightarrow> nat \<Rightarrow> rat" where
  "py_round x ndigits = fl (of_int (round_half_even (x * 10 ^ ndigits)) / 10 ^ ndigits)"


section \<open>AIService.generate_rating\<close>

text \<open>
  \<open>hashlib.md5\<close> is the standard library's; the model takes the digest function as the
  parameter \<open>md5\<close>, from the bytes of the name to the 128-bit digest, which
  \<open>int(hexdigest, 16)\<close> reads as a number. The literals 10.0 and 3.5 and the integer
  \<open>hash_int % 16\<close> are doubles exactly.
\<close>

definition generate_rating :: "(string \<Rightarrow> 128 word) \<Rightarrow> string \<Rightarrow> rat" where
  "generate_rating md5 name =
     (let hash_int = unat (md5 name);
          variance = fl (of_nat (hash_int mod 16) / 10);
          rating = fl (3.5 + variance)
      in py_round rating 1)"


section \<open>AIService: the classifiers\<close>

definition categorize_attraction_type :: "str_ops \<Rightarrow> string \<Rightarrow> string" where
  "categorize_attraction_type S kinds =
     (let kinds_lower = str_lower S kinds in
      if any_keyword_in [''historic'', ''cultural'', ''architecture'', ''monument'',
                         ''museum'', ''fort'', ''palace''] kinds_lower
      then ''historic''
      else if any_keyword_in [''natural'', ''park'', ''garden'', ''beach'', ''mountain'',
                              ''lake'', ''nature''] kinds_lower
      then ''nature''
      else if any_keyword_in [''religion'', ''temple'', ''church'', ''mosque'', ''gurdwara'',
                              ''shrine'', ''spiritual''] kinds_lower
      then ''religious''
      else if any_keyword_in [''amusement'', ''entertainment'', ''zoo'', ''aquarium'',
                              ''theater'', ''cinema''] kinds_lower
      then ''entertainment''
      else ''default'')"

definition categorize_hotel_type :: "str_ops \<Rightarrow> string \<Rightarrow> string \<Rightarrow> string" where
  "categorize_hotel_type S name kinds =
     (let text = str_lower S (name @ '' '' @ kinds) in
      if any_keyword_in [''luxury'', ''premium'', ''5-star'', ''resort'', ''palace'', ''spa''] text
      then ''luxury''
      else if any_keyword_in [''boutique'', ''heritage'', ''charming'', ''unique''] text
      then ''boutique''
      else if any_keyword_in [''hostel'', ''budget'', ''economy'', ''cheap''] text
      then ''budget''
      else ''default'')"

definition categorize_restaurant_type :: "str_ops \<Rightarrow> string \<Rightarrow> string \<Rightarrow> string" where
  "categorize_restaurant_type S name kinds =
     (let text = str_lower S (name @ '' '' @ kinds) in
      if any_keyword_in [''fine dining'', ''gourmet'', ''luxury'', ''premium'', ''5-star''] text
      then ''fine_dining''
      else if any_keyword_in [''street food'', ''fast food'', ''food court'', ''stall''] text
      then ''street_food''
      else if any_keyword_in [''cafe'', ''casual'', ''bistro'', ''diner''] text
      then ''casual''
      else ''default'')"


section \<open>AIService: the insight templates\<close>

text \<open>The three dictionaries, as association lists in the order of the source.\<close>

definition ATTRACTION_INSIGHTS :: "(string \<times> string list) list" where
  "ATTRACTION_INSIGHTS =
     [(''historic'',
        [''Rich in history and culture. Best visited with a guide to fully appreciate the stories.'',
         ''A testament to the region's glorious past. Don't miss the architectural details.'',
         ''Step back in time and experience the heritage of this magnificent site.'']),
      (''nature'',
        [''Perfect escape from city life. Visit early morning for the best experience.'',
         ''Breathtaking natural beauty. Ideal for photography enthusiasts.'',
         ''A peaceful retreat surrounded by nature's finest offerings.'']),
      (''religious'',
        [''Spiritual ambiance that brings peace and tranquility. Dress modestly.'',
         ''Important pilgrimage site with deep cultural significance.'',
         ''Experience the divine atmosphere and architectural grandeur.'']),
      (''entertainment'',
        [''Great place for fun and entertainment with family and friends.'',
         ''Vibrant atmosphere with plenty of activities for all ages.'',
         ''Perfect spot to unwind and enjoy leisure time.'']),
      (''default'',
        [''Popular destination loved by locals and tourists alike.'',
         ''Worth a visit when exploring the city. Check reviews for best times.'',
         ''A must-see attraction that captures the essence of the city.''])]"

definition HOTEL_INSIGHTS :: "(string \<times> string list) list" where
  "HOTEL_INSIGHTS =
     [(''luxury'',
        [''World-class amenities and impeccable service for a memorable stay.'',
         ''Indulge in luxury with stunning views and premium facilities.'',
         ''Perfect blend of comfort and elegance for discerning travelers.'']),
      (''boutique'',
        [''Charming property with unique character and personalized service.'',
         ''Intimate setting with attention to every detail.'',
         ''Experience local hospitality in a cozy, well-appointed space.'']),
      (''budget'',
        [''Great value for money with all essential amenities.'',
         ''Clean and comfortable accommodation without breaking the bank.'',
         ''Perfect for budget travelers and backpackers.'']),
      (''default'',
        [''Convenient location with good amenities for a comfortable stay.'',
         ''Well-rated property offering reliable hospitality.'',
         ''Good choice for both business and leisure travelers.''])]"

definition RESTAURANT_INSIGHTS :: "(string \<times> string list) list" where
  "RESTAURANT_INSIGHTS =
     [(''fine_dining'',
        [''Exquisite culinary experience with impeccable presentation and service.'',
         ''Perfect for special occasions with an elegant ambiance.'',
         ''Mouthwatering dishes crafted by skilled chefs using premium ingredients.'']),
      (''casual'',
        [''Relaxed atmosphere with delicious food at reasonable prices.'',
         ''Great spot for a casual meal with friends and family.'',
         ''Consistently good food with friendly service.'']),
      (''street_food'',
        [''Authentic local flavors that shouldn't be missed.'',
         ''Popular among locals - a true taste of the city's culinary culture.'',
         ''Delicious and affordable - perfect for food adventurers.'']),
      (''default'',
        [''Well-loved eatery serving tasty dishes in a welcoming setting.'',
         ''Good food, good vibes - a reliable choice for any meal.'',
         ''Recommended by locals for its quality and consistency.''])]"


section \<open>Exceptions, and the random number generator\<close>

datatype error = KeyError | IndexError | StoreError | InvalidDocument

text \<open>\<open>d[key]\<close> and \<open>d.get(key, default)\<close> on a dictionary.\<close>

definition dict_item :: "('k \<times> 'v) list \<Rightarrow> 'k \<Rightarrow> error + 'v" where
  "dict_item d key = (case map_of d key of None \<Rightarrow> Inl KeyError | Some v \<Rightarrow> Inr v)"

definition dict_get :: "('k \<times> 'v) list \<Rightarrow> 'k \<Rightarrow> 'v \<Rightarrow> 'v" where
  "dict_get d key dflt = (case map_of d key of None \<Rightarrow> dflt | Some v \<Rightarrow> v)"

text \<open>
  The module \<open>random\<close> keeps one generator for the whole process. Its state is a value
  of type \<open>'g\<close>; the generator is the standard library's, so the model takes its two
  operations as parameters: \<open>rng_seed n\<close> is the state \<open>random.seed(n)\<close> leaves, whatever
  the state was before, and \<open>rng_randbelow g n\<close> draws an index for a sequence of
  length \<open>n\<close> and gives the next state. \<open>random.choice(seq)\<close> raises IndexError on an
  empty sequence and returns \<open>seq[i]\<close> for the index drawn.

  \<open>hash(name)\<close> is the interpreter's string hash: a function of the string that is
  fixed while the process runs (the interpreter salts it when it starts). The model
  takes it as the parameter \<open>str_hash\<close>.
\<close>

record 'g rng =
  rng_seed :: "int \<Rightarrow> 'g"
  rng_randbelow :: "'g \<Rightarrow> nat \<Rightarrow> nat \<times> 'g"

definition random_choice :: "'g rng \<Rightarrow> 'g \<Rightarrow> 'a list \<Rightarrow> (error + 'a) \<times> 'g" where
  "random_choice R g seq =
     (if seq = [] then (Inl IndexError, g)
      else let (i, g') = rng_randbelow R g (length seq) in
        if i < length seq then (Inr (seq ! i), g') else (Inl IndexError, g'))"


section \<open>AIService.generate_insight\<close>

text \<open>The pool of templates the \<open>if\<close>/\<open>elif\<close> chain on the category selects; \<open>None\<close>
  where the chain takes its \<open>else\<close> branch and returns at once.\<close>

definition select_insights ::
  "str_ops \<Rightarrow> string \<Rightarrow> string \<Rightarrow> string \<Rightarrow> (error + string list) option"
where
  "select_insights S name category kinds =
     (if category = ''attractions'' then
        (let attr_type = categorize_attraction_type S kinds in
         Some (case dict_item ATTRACTION_INSIGHTS ''default'' of
                 Inl e \<Rightarrow> Inl e
               | Inr dflt \<Rightarrow> Inr (dict_get ATTRACTION_INSIGHTS attr_type dflt)))
      else if category = ''hotels'' then
        (let hotel_type = categorize_hotel_type S name kinds in
         Some (case dict_item HOTEL_INSIGHTS ''default'' of
                 Inl e \<Rightarrow> Inl e
               | Inr dflt \<Rightarrow> Inr (dict_get HOTEL_INSIGHTS hotel_type dflt)))
      else if category = ''restaurants'' then
        (let rest_type = categorize_restaurant_type S name kinds in
         Some (case dict_item RESTAURANT_INSIGHTS ''default'' of
                 Inl e \<Rightarrow> Inl e
               | Inr dflt \<Rightarrow> Inr (dict_get RESTAURANT_INSIGHTS rest_type dflt)))
      else None)"

text \<open>The text the rating adds to the chosen template.\<close>

definition insight_suffix :: "rat \<Rightarrow> string" where
  "insight_suffix rating =
     (if rating \<ge> 4.5 then '' Highly rated by visitors!''
      else if rating \<ge> 4.0 then '' Well-loved by travelers.''
      else [])"

definition generate_insight ::
  "str_ops \<Rightarrow> 'g rng \<Rightarrow> (string \<Rightarrow> int) \<Rightarrow> 'g \<Rightarrow> string \<Rightarrow> string \<Rightarrow> string \<Rightarrow> rat
    \<Rightarrow> (error + string) \<times> 'g"
where
  "generate_insight S R str_hash g name category kinds rating =
     (let g1 = rng_seed R (str_hash name mod 10000) in
      case select_insights S name category kinds of
        None \<Rightarrow> (Inr ''A great place to visit and explore.'', g1)
      | Some (Inl e) \<Rightarrow> (Inl e, g1)
      | Some (Inr insights) \<Rightarrow>
          (case random_choice R g1 insights of
             (Inl e, g2) \<Rightarrow> (Inl e, g2)
           | (Inr insight, g2) \<Rightarrow> (Inr (insight @ insight_suffix rating), g2)))"


section \<open>AIService.rank_places\<close>

text \<open>
  An enriched place is the dictionary \<open>format_place_data\<close> builds. \<open>rank_places\<close> reads
  \<open>rating\<close> and \<open>review_count\<close> with \<open>get\<close> and the default 0, so both are optional
  here; \<open>format_place_data\<close> always sets the first and never the second.
\<close>

record place =
  pl_name :: string
  pl_category :: string
  pl_rating :: "rat option"
  pl_review_count :: "rat option"
  pl_price_range :: string
  pl_ai_insight :: string
  pl_distance :: rat
  pl_lat :: "rat option"
  pl_lon :: "rat option"

definition rank_key :: "place \<Rightarrow> rat \<times> rat" where
  "rank_key x =
     (case pl_rating x of None \<Rightarrow> 0 | Some r \<Rightarrow> r,
      case pl_review_count x of None \<Rightarrow> 0 | Some n \<Rightarrow> n)"

text \<open>
  \<open>sorted(places, key=..., reverse=True)\<close>: CPython reverses the list, sorts it with its
  stable ascending sort, and reverses the result, which keeps equal keys in their input
  order. Tuples compare lexicographically.
\<close>

definition rank_places :: "place list \<Rightarrow> place list" where
  "rank_places places = rev (sort_key rank_key (rev places))"


section \<open>PlaceService.fetch_places_from_geoapify\<close>

text \<open>
  The properties of one feature of the Geoapify reply, and the place dictionary the
  service builds from it. A key read with \<open>get\<close> is an optional field. The HTTP request
  is outside the repository: the model takes its outcome. \<open>calculate_distance\<close> is
  trigonometry on doubles and is taken as the parameter \<open>haversine\<close>.
\<close>

record props =
  pr_name :: "string option"
  pr_formatted :: "string option"
  pr_lat :: "rat option"
  pr_lon :: "rat option"
  pr_categories :: "string list option"
  pr_distance :: "rat option"

record raw_place =
  rp_name :: "string option"
  rp_address :: "string option"
  rp_lat :: "rat option"
  rp_lon :: "rat option"
  rp_categories :: "string list"
  rp_kinds :: "string option"
  rp_distance :: "rat option"
  rp_rating :: "rat option"

datatype body = NotJson | Json "props list"

datatype http_result = RequestError | Reply nat body

text \<open>\<open>sep.join(xs)\<close>\<close>

fun join :: "string \<Rightarrow> string list \<Rightarrow> string" where
  "join sep [] = []"
| "join sep [x] = x"
| "join sep (x # y # ys) = x @ sep @ join sep (y # ys)"

text \<open>Truth of an optional string and of an optional number, as \<open>if\<close> and \<open>not\<close> read
  them: \<open>None\<close>, the empty string and zero are false.\<close>

definition truthy_str :: "string option \<Rightarrow> bool" where
  "truthy_str v = (case v of None \<Rightarrow> False | Some x \<Rightarrow> x \<noteq> [])"

definition truthy_num :: "rat option \<Rightarrow> bool" where
  "truthy_num v = (case v of None \<Rightarrow> False | Some x \<Rightarrow> x \<noteq> 0)"

text \<open>The body of the loop over the features: \<open>None\<close> where it continues without a
  place.\<close>

definition place_of_feature ::
  "(rat \<Rightarrow> rat \<Rightarrow> rat \<Rightarrow> rat \<Rightarrow> rat) \<Rightarrow> rat \<Rightarrow> rat \<Rightarrow> props \<Rightarrow> raw_place option"
where
  "place_of_feature haversine lat lon p =
     (if \<not> truthy_str (pr_name p) then None
      else
        let place_lat = pr_lat p;
            place_lon = pr_lon p;
            dist0 = fl ((case pr_distance p of None \<Rightarrow> 0 | Some d \<Rightarrow> d) / 1000);
            dist = (if dist0 = 0 \<and> truthy_num place_lat \<and> truthy_num place_lon
                    then haversine lat lon (the place_lat) (the place_lon)
                    else dist0);
            cats = (case pr_categories p of None \<Rightarrow> [] | Some cs \<Rightarrow> cs);
            place = \<lparr>rp_name = pr_name p,
                     rp_address = pr_formatted p,
                     rp_lat = place_lat,
                     rp_lon = place_lon,
                     rp_categories = cats,
                     rp_kinds = Some (join '','' cats),
                     rp_distance = Some (py_round dist 2),
                     rp_rating = None\<rparr>
        in Some (place\<lparr>rp_rating := Some 0\<rparr>))"

definition fetch_places_from_geoapify ::
  "(rat \<Rightarrow> rat \<Rightarrow> rat \<Rightarrow> rat \<Rightarrow> rat) \<Rightarrow> bool \<Rightarrow> http_result \<Rightarrow> rat \<Rightarrow> rat \<Rightarrow> raw_place list"
where
  "fetch_places_from_geoapify haversine api_key_set result lat lon =
     (if \<not> api_key_set then []
      else case result of
        RequestError \<Rightarrow> []
      | Reply status_code b \<Rightarrow>
          if status_code \<noteq> 200 then []
          else case b of
            NotJson \<Rightarrow> []
          | Json features \<Rightarrow>
              if features = [] then []
              else List.map_filter (place_of_feature haversine lat lon) features)"


section \<open>app.format_place_data\<close>

text \<open>The body of the loop over the raw places: \<open>None\<close> where it skips a place without
  a name.\<close>

definition format_place ::
  "str_ops \<Rightarrow> 'g rng \<Rightarrow> (string \<Rightarrow> int) \<Rightarrow> (string \<Rightarrow> 128 word) \<Rightarrow> 'g \<Rightarrow> string
    \<Rightarrow> raw_place \<Rightarrow> (error + place option) \<times> 'g"
where
  "format_place S R str_hash md5 g category place =
     (if \<not> truthy_str (rp_name place) then (Inr None, g)
      else
        let name = the (rp_name place);
            kinds = (case rp_kinds place of None \<Rightarrow> [] | Some k \<Rightarrow> k);
            place_rating = (case rp_rating place of None \<Rightarrow> 0 | Some r \<Rightarrow> r)
        in case generate_insight S R str_hash g name category kinds place_rating of
             (Inl e, g') \<Rightarrow> (Inl e, g')
           | (Inr insight, g') \<Rightarrow>
               let price_range = estimate_price_range S name kinds place_rating;
                   rating = generate_rating md5 name
               in (Inr (Some \<lparr>pl_name = name,
                       pl_category = (if category \<noteq> [] \<and> last category = CHR ''s''
                                      then butlast category else category),
                       pl_rating = Some rating,
                       pl_review_count = None,
                       pl_price_range = price_range,
                       pl_ai_insight = insight,
                       pl_distance = (case rp_distance place of None \<Rightarrow> 0 | Some d \<Rightarrow> d),
                       pl_lat = rp_lat place,
                       pl_lon = rp_lon place\<rparr>), g'))"

fun format_places ::
  "str_ops \<Rightarrow> 'g rng \<Rightarrow> (string \<Rightarrow> int) \<Rightarrow> (string \<Rightarrow> 128 word) \<Rightarrow> 'g \<Rightarrow> string
    \<Rightarrow> raw_place list \<Rightarrow> (error + place list) \<times> 'g"
where
  "format_places S R str_hash md5 g category [] = (Inr [], g)"
| "format_places S R str_hash md5 g category (place # rest) =
     (case format_place S R str_hash md5 g category place of
        (Inl e, g') \<Rightarrow> (Inl e, g')
      | (Inr r, g') \<Rightarrow>
          (case format_places S R str_hash md5 g' category rest of
             (Inl e, g'') \<Rightarrow> (Inl e, g'')
           | (Inr formatted, g'') \<Rightarrow>
               (Inr (case r of None \<Rightarrow> formatted | Some fp \<Rightarrow> fp # formatted), g'')))"

definition format_place_data ::
  "str_ops \<Rightarrow> 'g rng \<Rightarrow> (string \<Rightarrow> int) \<Rightarrow> (string \<Rightarrow> 128 word) \<Rightarrow> 'g \<Rightarrow> raw_place list
    \<Rightarrow> string \<Rightarrow> (error + place list) \<times> 'g"
where
  "format_place_data S R str_hash md5 g raw_places category =
     (case format_places S R str_hash md5 g category raw_places of
        (Inl e, g') \<Rightarrow> (Inl e, g')
      | (Inr formatted, g') \<Rightarrow> (Inr (rank_places formatted), g'))"


section \<open>DatabaseService\<close>

text \<open>
  The collection \<open>city_cache\<close> has a unique index on \<open>city_name\<close>, so it is a map from
  the city name to the rest of the document. A document read with \<open>get\<close> may lack
  \<open>data\<close> or \<open>cached_at\<close>. A time is a number of microseconds, the resolution of
  \<open>datetime\<close>.

  The driver and the store are outside the repository; the model has of them what the
  two functions meet. The driver raises when the server cannot be reached, which the
  field \<open>reachable\<close> decides, and when it cannot encode a document as BSON, which the
  field \<open>encodable\<close> decides for a payload. A payload it encodes reads back as the value
  \<open>as_stored\<close> gives: the payload itself when it is built of dictionaries, lists, strings,
  numbers and \<open>None\<close>, as the payload of the search is; a tuple reads back as a list.
  BSON keeps a time as a whole number of milliseconds, and the driver drops the
  microseconds below: \<open>bson_time\<close>.
\<close>

record 'p cache_doc =
  doc_data :: "'p option"
  doc_cached_at :: "int option"

record 'p collection =
  docs :: "string \<rightharpoonup> 'p cache_doc"
  reachable :: bool
  encodable :: "'p \<Rightarrow> bool"
  as_stored :: "'p \<Rightarrow> 'p"

definition bson_time :: "int \<Rightarrow> int" where
  "bson_time t = (t div 1000) * 1000"

definition find_one :: "'p collection \<Rightarrow> string \<Rightarrow> error + 'p cache_doc option" where
  "find_one c city = (if reachable c then Inr (docs c city) else Inl StoreError)"

text \<open>\<open>update_one({'city_name': city}, {'$set': entry}, upsert=True)\<close>: the fields of
  the entry, as BSON keeps them, replace those of the document found, or the entry is
  inserted.\<close>

definition update_one_upsert ::
  "'p collection \<Rightarrow> string \<Rightarrow> 'p cache_doc \<Rightarrow> error + 'p collection"
where
  "update_one_upsert c city entry =
     (if \<not> (case doc_data entry of None \<Rightarrow> True | Some payload \<Rightarrow> encodable c payload)
      then Inl InvalidDocument
      else if \<not> reachable c then Inl StoreError
      else
        let stored = \<lparr>doc_data = map_option (as_stored c) (doc_data entry),
                      doc_cached_at = map_option bson_time (doc_cached_at entry)\<rparr> in
        Inr (c\<lparr>docs := (docs c)(city \<mapsto>
               (case docs c city of
                  None \<Rightarrow> stored
                | Some old \<Rightarrow> old\<lparr>doc_data := doc_data stored,
                                   doc_cached_at := doc_cached_at stored\<rparr>))\<rparr>))"

definition delete_one :: "'p collection \<Rightarrow> string \<Rightarrow> error + 'p collection" where
  "delete_one c city =
     (if reachable c then Inr (c\<lparr>docs := (docs c)(city := None)\<rparr>) else Inl StoreError)"

definition delete_many :: "'p collection \<Rightarrow> error + 'p collection" where
  "delete_many c = (if reachable c then Inr (c\<lparr>docs := Map.empty\<rparr>) else Inl StoreError)"

text \<open>\<open>city_name.lower().strip()\<close>\<close>

definition normalize_city :: "str_ops \<Rightarrow> string \<Rightarrow> string" where
  "normalize_city S city_name = str_strip S (str_lower S city_name)"

text \<open>\<open>timedelta(hours=24)\<close>, in microseconds.\<close>

definition ttl :: int where
  "ttl = 24 * 3600 * 1000000"

text \<open>
  The body of the \<open>try\<close> of \<open>get_cached_data\<close>, at the time \<open>now\<close> that
  \<open>datetime.utcnow()\<close> returns, then the function with its \<open>except\<close>. Both also give the
  collection after the call.
\<close>

definition get_cached_try ::
  "str_ops \<Rightarrow> int \<Rightarrow> 'p collection \<Rightarrow> string \<Rightarrow> error + ('p option \<times> 'p collection)"
where
  "get_cached_try S now c city_name =
     (let normalized_city = normalize_city S city_name in
      case find_one c normalized_city of
        Inl e \<Rightarrow> Inl e
      | Inr None \<Rightarrow> Inr (None, c)
      | Inr (Some cached) \<Rightarrow>
          (case doc_cached_at cached of
             Some cached_time \<Rightarrow>
               (let age = now - cached_time in
                if age < ttl then Inr (doc_data cached, c) else Inr (None, c))
           | None \<Rightarrow> Inr (doc_data cached, c)))"

definition get_cached_data ::
  "str_ops \<Rightarrow> int \<Rightarrow> 'p collection \<Rightarrow> string \<Rightarrow> error + ('p option \<times> 'p collection)"
where
  "get_cached_data S now c city_name =
     (case get_cached_try S now c city_name of
        Inl e \<Rightarrow> Inr (None, c)
      | Inr r \<Rightarrow> Inr r)"

definition cache_data_try ::
  "str_ops \<Rightarrow> int \<Rightarrow> 'p collection \<Rightarrow> string \<Rightarrow> 'p \<Rightarrow> error + 'p collection"
where
  "cache_data_try S now c city_name payload =
     (let normalized_city = normalize_city S city_name;
          cache_entry = \<lparr>doc_data = Some payload, doc_cached_at = Some now\<rparr>
      in update_one_upsert c normalized_city cache_entry)"

definition cache_data ::
  "str_ops \<Rightarrow> int \<Rightarrow> 'p collection \<Rightarrow> string \<Rightarrow> 'p \<Rightarrow> error + 'p collection"
where
  "cache_data S now c city_name payload =
     (case cache_data_try S now c city_name payload of
        Inl e \<Rightarrow> Inr c
      | Inr c' \<Rightarrow> Inr c')"

definition clear_cache :: "str_ops \<Rightarrow> 'p collection \<Rightarrow> string option \<Rightarrow> error + 'p collection" where
  "clear_cache S c city_name =
     (case (if truthy_str city_name
            then delete_one c (normalize_city S (the city_name))
            else delete_many c) of
        Inl e \<Rightarrow> Inr c
      | Inr c' \<Rightarrow> Inr c')"


section \<open>The rules as tables\<close>

text \<open>
  The classifiers as the specification words them: an ordered list of rules, each a
  label with its keywords; the first rule with a keyword that occurs in the text gives
  the label, and \<open>default\<close> is the label when no rule matches. A keyword occurs in a text
  when the text is a prefix, the keyword and a suffix (\<^const>\<open>sublist\<close>).
\<close>

definition ATTRACTION_RULES :: "(string \<times> string list) list" where
  "ATTRACTION_RULES =
     [(''historic'', [''historic'', ''cultural'', ''architecture'', ''monument'', ''museum'',
                       ''fort'', ''palace'']),
      (''nature'', [''natural'', ''park'', ''garden'', ''beach'', ''mountain'', ''lake'',
                     ''nature'']),
      (''religious'', [''religion'', ''temple'', ''church'', ''mosque'', ''gurdwara'', ''shrine'',
                        ''spiritual'']),
      (''entertainment'', [''amusement'', ''entertainment'', ''zoo'', ''aquarium'', ''theater'',
                            ''cinema''])]"

definition HOTEL_RULES :: "(string \<times> string list) list" where
  "HOTEL_RULES =
     [(''luxury'', [''luxury'', ''premium'', ''5-star'', ''resort'', ''palace'', ''spa'']),
      (''boutique'', [''boutique'', ''heritage'', ''charming'', ''unique'']),
      (''budget'', [''hostel'', ''budget'', ''economy'', ''cheap''])]"

definition RESTAURANT_RULES :: "(string \<times> string list) list" where
  "RESTAURANT_RULES =
     [(''fine_dining'', [''fine dining'', ''gourmet'', ''luxury'', ''premium'', ''5-star'']),
      (''street_food'', [''street food'', ''fast food'', ''food court'', ''stall'']),
      (''casual'', [''cafe'', ''casual'', ''bistro'', ''diner''])]"

fun first_match :: "(string \<times> string list) list \<Rightarrow> string \<Rightarrow> string" where
  "first_match [] text = ''default''"
| "first_match ((label, keywords) # rules) text =
     (if \<exists>k \<in> set keywords. sublist k text then label else first_match rules text)"

text \<open>
  The label the chain of \<open>generate_insight\<close> computes for a category (\<open>attr_type\<close>,
  \<open>hotel_type\<close>, \<open>rest_type\<close>); \<open>None\<close> in its \<open>else\<close> branch, which calls no classifier.
\<close>

definition category_label :: "str_ops \<Rightarrow> string \<Rightarrow> string \<Rightarrow> string \<Rightarrow> string option" where
  "category_label S name category kinds =
     (if category = ''attractions'' then Some (categorize_attraction_type S kinds)
      else if category = ''hotels'' then Some (categorize_hotel_type S name kinds)
      else if category = ''restaurants'' then Some (categorize_restaurant_type S name kinds)
      else None)"

text \<open>Every template of the three dictionaries.\<close>

definition all_templates :: "string list" where
  "all_templates = concat (map snd (ATTRACTION_INSIGHTS @ HOTEL_INSIGHTS @ RESTAURANT_INSIGHTS))"


section \<open>Instances to run the model on\<close>

text \<open>
  A generator draws indices in range: \<open>rng_in_range\<close>. The counter below is one such
  generator, and the length of a string is a hash of it; the concrete runs of
  \<open>generate_insight\<close> in this theory use them.
\<close>

definition rng_in_range :: "'g rng \<Rightarrow> bool" where
  "rng_in_range R \<longleftrightarrow> (\<forall>g n. 0 < n \<longrightarrow> fst (rng_randbelow R g n) < n)"

definition counter_rng :: "nat rng" where
  "counter_rng = \<lparr>rng_seed = (\<lambda>n. nat n), rng_randbelow = (\<lambda>g n. (g mod n, Suc g))\<rparr>"

definition length_hash :: "string \<Rightarrow> int" where
  "length_hash s = int (length s)"

text \<open>A digest function to run \<open>generate_rating\<close> on: the length of the name as a
  128-bit number. It stands in for MD5 in concrete runs only.\<close>

definition length_digest :: "string \<Rightarrow> 128 word" where
  "length_digest s = of_nat (length s)"

text \<open>A hash with a salt, as the interpreter's is: the salt and the length.\<close>

definition salted_hash :: "int \<Rightarrow> string \<Rightarrow> int" where
  "salted_hash salt s = salt + length_hash s"

text \<open>
  The string operations for the concrete runs. \<open>lower_basic\<close> is \<open>str.lower()\<close> on the
  texts made of ASCII characters, the Kelvin sign U+212A (the bytes E2 84 AA, lower case
  \<open>k\<close>) and the dotted capital I U+0130 (the bytes C4 B0, lower case \<open>i\<close> and U+0307, the
  bytes CC 87): the two characters beyond ASCII whose lower case holds an ASCII letter.
  \<open>strip_basic\<close> is \<open>str.strip()\<close>: it removes, at both ends, every character that
  \<open>str.isspace()\<close> accepts, each by its UTF-8 bytes.
\<close>

definition lower_char :: "char \<Rightarrow> char" where
  "lower_char c =
     (case map_of (zip ''ABCDEFGHIJKLMNOPQRSTUVWXYZ'' ''abcdefghijklmnopqrstuvwxyz'') c of
        None \<Rightarrow> c
      | Some l \<Rightarrow> l)"

fun lower_basic :: "string \<Rightarrow> string" where
  "lower_basic [] = []"
| "lower_basic (c # cs) =
     (if c = CHR 0xE2 \<and> take 2 cs = [CHR 0x84, CHR 0xAA] then CHR ''k'' # lower_basic (drop 2 cs)
      else if c = CHR 0xC4 \<and> take 1 cs = [CHR 0xB0]
        then CHR ''i'' # CHR 0xCC # CHR 0x87 # lower_basic (drop 1 cs)
      else lower_char c # lower_basic cs)"

definition white_space :: "string list" where
  "white_space =
     [[CHR 0x09], [CHR 0x0A], [CHR 0x0B], [CHR 0x0C], [CHR 0x0D],
      [CHR 0x1C], [CHR 0x1D], [CHR 0x1E], [CHR 0x1F], [CHR 0x20],
      [CHR 0xC2, CHR 0x85], [CHR 0xC2, CHR 0xA0], [CHR 0xE1, CHR 0x9A, CHR 0x80],
      [CHR 0xE2, CHR 0x80, CHR 0x80], [CHR 0xE2, CHR 0x80, CHR 0x81],
      [CHR 0xE2, CHR 0x80, CHR 0x82], [CHR 0xE2, CHR 0x80, CHR 0x83],
      [CHR 0xE2, CHR 0x80, CHR 0x84], [CHR 0xE2, CHR 0x80, CHR 0x85],
      [CHR 0xE2, CHR 0x80, CHR 0x86], [CHR 0xE2, CHR 0x80, CHR 0x87],
      [CHR 0xE2, CHR 0x80, CHR 0x88], [CHR 0xE2, CHR 0x80, CHR 0x89],
      [CHR 0xE2, CHR 0x80, CHR 0x8A], [CHR 0xE2, CHR 0x80, CHR 0xA8],
      [CHR 0xE2, CHR 0x80, CHR 0xA9], [CHR 0xE2, CHR 0x80, CHR 0xAF],
      [CHR 0xE2, CHR 0x81, CHR 0x9F], [CHR 0xE3, CHR 0x80, CHR 0x80]]"

text \<open>Removing, at the front, what stands in a list of byte sequences.\<close>

fun lstrip_of :: "string list \<Rightarrow> string \<Rightarrow> string" where
  "lstrip_of seqs [] = []"
| "lstrip_of seqs (c # cs) =
     (case find (\<lambda>w. w \<noteq> [] \<and> startswith (c # cs) w) seqs of
        None \<Rightarrow> c # cs
      | Some w \<Rightarrow> lstrip_of seqs (drop (length w - 1) cs))"

definition strip_basic :: "string \<Rightarrow> string" where
  "strip_basic s = rev (lstrip_of (map rev white_space) (rev (lstrip_of white_space s)))"

definition basic_str :: str_ops where
  "basic_str = \<lparr>str_lower = lower_basic, str_strip = strip_basic\<rparr>"


text \<open>
  Five places, named by their rank: the first input has the rating 4 and 10 reviews, as
  has the fourth; the third has the rating 4 and 20 reviews, the second the rating 5 and
  no review count, the last no rating and 7 reviews.
\<close>

definition place_of :: "string \<Rightarrow> rat option \<Rightarrow> rat option \<Rightarrow> place" where
  "place_of name rating review_count =
     \<lparr>pl_name = name, pl_category = ''hotel'', pl_rating = rating,
      pl_review_count = review_count, pl_price_range = rupee1, pl_ai_insight = [],
      pl_distance = 0, pl_lat = None, pl_lon = None\<rparr>"


text \<open>
  A store that answers, with no entry, for payloads that are strings; its driver encodes
  the payloads of at most 16 characters (BSON bounds the size of a document), and they
  read back as they were written.
\<close>

definition empty_store :: "string collection" where
  "empty_store =
     \<lparr>docs = Map.empty, reachable = True, encodable = (\<lambda>payload. length payload \<le> 16),
      as_stored = (\<lambda>payload. payload)\<rparr>"


section \<open>What the pipeline gives a place whose rating reads as 0\<close>

text \<open>
  The relation between a raw place \<open>p\<close> and a record \<open>fp\<close> of the output that the proofs
  about \<open>format_place_data\<close> carry through its loop: \<open>fp\<close> has the name of \<open>p\<close>, its price
  and its insight are those the two estimators give at rating 0, and its rating is the
  generated one.
\<close>

definition zero_enriched ::
  "str_ops \<Rightarrow> 'g rng \<Rightarrow> (string \<Rightarrow> int) \<Rightarrow> (string \<Rightarrow> 128 word) \<Rightarrow> string \<Rightarrow> raw_place
    \<Rightarrow> place \<Rightarrow> bool"
where
  "zero_enriched S R h md5 category p fp \<longleftrightarrow>
     rp_name p = Some (pl_name fp)
     \<and> pl_price_range fp
          = estimate_price_range S (pl_name fp) (case rp_kinds p of None \<Rightarrow> [] | Some k \<Rightarrow> k) 0
     \<and> (\<exists>g0. fst (generate_insight S R h g0 (pl_name fp) category
                  (case rp_kinds p of None \<Rightarrow> [] | Some k \<Rightarrow> k) 0) = Inr (pl_ai_insight fp))
     \<and> (pl_ai_insight fp \<in> set all_templates
          \<or> pl_ai_insight fp = ''A great place to visit and explore.'')
     \<and> pl_rating fp = Some (generate_rating md5 (pl_name fp))"


section \<open>Substring search\<close>

lemma startswith_iff_prefix: "startswith t k \<longleftrightarrow> prefix k t"
  by (induction t k rule: startswith.induct) auto

lemma str_in_iff_sublist: "str_in k t \<longleftrightarrow> sublist k t"
proof (induction t)
  case Nil
  show ?case by simp
next
  case (Cons c cs)
  show ?case
    unfolding str_in.simps Cons.IH startswith_iff_prefix
    by (simp only: sublist_Cons_right)
qed

lemma any_keyword_in_iff:
  "any_keyword_in keywords text \<longleftrightarrow> (\<exists>k \<in> set keywords. sublist k text)"
  by (simp add: any_keyword_in_def list_ex_iff str_in_iff_sublist)

lemma rupee_distinct: "rupee1 \<noteq> rupee2" "rupee1 \<noteq> rupee3" "rupee2 \<noteq> rupee3"
  by (simp_all add: rupee1_def rupee2_def rupee3_def rupee_def)


section \<open>The price estimator\<close>

text \<open>
  C2. \<open>estimate_price_range\<close> returns one of the three symbols, which are pairwise
  different, and the first matching rule decides, on the text
  \<open>(name + ' ' + kinds).lower()\<close>: a luxury keyword occurring in the text gives three
  rupee signs whatever else occurs; otherwise a budget keyword gives one; otherwise a
  moderate keyword gives two; otherwise the rating decides: at least 4.5 gives three,
  at least 4.0 and below 4.5 gives two, below 4.0 gives one. A keyword occurs in the
  text when the text is some prefix, the keyword, and some suffix (\<^const>\<open>sublist\<close>).
  This holds whatever \<open>str.lower()\<close> does.
\<close>

theorem estimate_price_range_precedence:
  "estimate_price_range S name kinds rating \<in> {rupee1, rupee2, rupee3}
   \<and> ((\<exists>k \<in> set LUXURY_KEYWORDS. sublist k (str_lower S (name @ '' '' @ kinds)))
        \<longrightarrow> estimate_price_range S name kinds rating = rupee3)
   \<and> (\<not> (\<exists>k \<in> set LUXURY_KEYWORDS. sublist k (str_lower S (name @ '' '' @ kinds)))
        \<and> (\<exists>k \<in> set BUDGET_KEYWORDS. sublist k (str_lower S (name @ '' '' @ kinds)))
        \<longrightarrow> estimate_price_range S name kinds rating = rupee1)
   \<and> (\<not> (\<exists>k \<in> set LUXURY_KEYWORDS. sublist k (str_lower S (name @ '' '' @ kinds)))
        \<and> \<not> (\<exists>k \<in> set BUDGET_KEYWORDS. sublist k (str_lower S (name @ '' '' @ kinds)))
        \<and> (\<exists>k \<in> set MODERATE_KEYWORDS. sublist k (str_lower S (name @ '' '' @ kinds)))
        \<longrightarrow> estimate_price_range S name kinds rating = rupee2)
   \<and> (\<not> (\<exists>k \<in> set (LUXURY_KEYWORDS @ BUDGET_KEYWORDS @ MODERATE_KEYWORDS).
              sublist k (str_lower S (name @ '' '' @ kinds)))
        \<longrightarrow> estimate_price_range S name kinds rating =
              (if rating \<ge> 4.5 then rupee3 else if rating \<ge> 4.0 then rupee2 else rupee1))
   \<and> rupee1 \<noteq> rupee2 \<and> rupee1 \<noteq> rupee3 \<and> rupee2 \<noteq> rupee3"
  unfolding estimate_price_range_def Let_def any_keyword_in_iff
  using rupee_distinct by auto

text \<open>
  The runs below are on texts that need their capitals folded to match; the last two
  hold the Kelvin sign and the dotted capital I, which \<open>str.lower()\<close> turns into the
  \<open>k\<close> of \<open>backpacker\<close> and the \<open>i\<close> of \<open>oberoi\<close>.
\<close>

theorem estimate_price_range_precedence_witness:
  "estimate_price_range basic_str ''Taj Mahal Palace Hotel'' ''luxury,heritage'' 0 = rupee3
   \<and> estimate_price_range basic_str ''Budget Palace'' ''accommodation.hotel'' 0 = rupee3
   \<and> estimate_price_range basic_str ''Sunrise Cafe'' ''catering.cafe'' 5 = rupee1
   \<and> estimate_price_range basic_str ''Casual Corner'' ''catering.restaurant'' 0 = rupee2
   \<and> estimate_price_range basic_str ''Gateway of India'' ''tourism.sights'' 0 = rupee1
   \<and> estimate_price_range basic_str ''Gateway of India'' ''tourism.sights'' 4.2 = rupee2
   \<and> estimate_price_range basic_str ''Gateway of India'' ''tourism.sights'' 4.5 = rupee3
   \<and> estimate_price_range basic_str (''BAC'' @ [CHR 0xE2, CHR 0x84, CHR 0xAA] @ ''PACKER INN'')
         [] 5 = rupee1
   \<and> estimate_price_range basic_str (''OBERO'' @ [CHR 0xC4, CHR 0xB0]) [] 0 = rupee3"
proof -
  have lux1: "\<exists>k \<in> set LUXURY_KEYWORDS.
      sublist k (str_lower basic_str (''Taj Mahal Palace Hotel'' @ '' '' @ ''luxury,heritage''))"
    by code_simp
  have lux2: "\<exists>k \<in> set LUXURY_KEYWORDS.
      sublist k (str_lower basic_str (''Budget Palace'' @ '' '' @ ''accommodation.hotel''))"
    by code_simp
  have lux3: "\<exists>k \<in> set LUXURY_KEYWORDS.
      sublist k (str_lower basic_str ((''OBERO'' @ [CHR 0xC4, CHR 0xB0]) @ '' '' @ []))"
    by code_simp
  have bud: "\<not> (\<exists>k \<in> set LUXURY_KEYWORDS.
        sublist k (str_lower basic_str (''Sunrise Cafe'' @ '' '' @ ''catering.cafe'')))
      \<and> (\<exists>k \<in> set BUDGET_KEYWORDS.
        sublist k (str_lower basic_str (''Sunrise Cafe'' @ '' '' @ ''catering.cafe'')))"
    by code_simp
  have bud2: "\<not> (\<exists>k \<in> set LUXURY_KEYWORDS.
        sublist k (str_lower basic_str
          ((''BAC'' @ [CHR 0xE2, CHR 0x84, CHR 0xAA] @ ''PACKER INN'') @ '' '' @ [])))
      \<and> (\<exists>k \<in> set BUDGET_KEYWORDS.
        sublist k (str_lower basic_str
          ((''BAC'' @ [CHR 0xE2, CHR 0x84, CHR 0xAA] @ ''PACKER INN'') @ '' '' @ [])))"
    by code_simp
  have mod: "\<not> (\<exists>k \<in> set LUXURY_KEYWORDS.
        sublist k (str_lower basic_str (''Casual Corner'' @ '' '' @ ''catering.restaurant'')))
      \<and> \<not> (\<exists>k \<in> set BUDGET_KEYWORDS.
        sublist k (str_lower basic_str (''Casual Corner'' @ '' '' @ ''catering.restaurant'')))
      \<and> (\<exists>k \<in> set MODERATE_KEYWORDS.
        sublist k (str_lower basic_str (''Casual Corner'' @ '' '' @ ''catering.restaurant'')))"
    by code_simp
  have none: "\<not> (\<exists>k \<in> set (LUXURY_KEYWORDS @ BUDGET_KEYWORDS @ MODERATE_KEYWORDS).
        sublist k (str_lower basic_str (''Gateway of India'' @ '' '' @ ''tourism.sights'')))"
    by code_simp
  note p = estimate_price_range_precedence [where S = basic_str]
  from lux1 p [of "''Taj Mahal Palace Hotel''" "''luxury,heritage''" 0]
  have 1: "estimate_price_range basic_str ''Taj Mahal Palace Hotel'' ''luxury,heritage'' 0 = rupee3"
    by blast
  from lux2 p [of "''Budget Palace''" "''accommodation.hotel''" 0]
  have 2: "estimate_price_range basic_str ''Budget Palace'' ''accommodation.hotel'' 0 = rupee3"
    by blast
  from bud p [of "''Sunrise Cafe''" "''catering.cafe''" 5]
  have 3: "estimate_price_range basic_str ''Sunrise Cafe'' ''catering.cafe'' 5 = rupee1"
    by blast
  from mod p [of "''Casual Corner''" "''catering.restaurant''" 0]
  have 4: "estimate_price_range basic_str ''Casual Corner'' ''catering.restaurant'' 0 = rupee2"
    by blast
  from none p [of "''Gateway of India''" "''tourism.sights''" 0]
  have 5: "estimate_price_range basic_str ''Gateway of India'' ''tourism.sights'' 0 = rupee1"
    by simp
  from none p [of "''Gateway of India''" "''tourism.sights''" "4.2"]
  have 6: "estimate_price_range basic_str ''Gateway of India'' ''tourism.sights'' 4.2 = rupee2"
    by simp
  from none p [of "''Gateway of India''" "''tourism.sights''" "4.5"]
  have 7: "estimate_price_range basic_str ''Gateway of India'' ''tourism.sights'' 4.5 = rupee3"
    by simp
  from bud2 p [of "''BAC'' @ [CHR 0xE2, CHR 0x84, CHR 0xAA] @ ''PACKER INN''" "[]" 5]
  have 8: "estimate_price_range basic_str
      (''BAC'' @ [CHR 0xE2, CHR 0x84, CHR 0xAA] @ ''PACKER INN'') [] 5 = rupee1"
    by blast
  from lux3 p [of "''OBERO'' @ [CHR 0xC4, CHR 0xB0]" "[]" 0]
  have 9: "estimate_price_range basic_str (''OBERO'' @ [CHR 0xC4, CHR 0xB0]) [] 0 = rupee3"
    by blast
  from 1 2 3 4 5 6 7 8 9 show ?thesis
    by (intro conjI)
qed


section \<open>The rating generator\<close>

lemma rating_of_residue:
  "py_round (fl (3.5 + fl (of_nat 0 / 10))) 1 = fl 3.5"
  "py_round (fl (3.5 + fl (of_nat 1 / 10))) 1 = fl 3.6"
  "py_round (fl (3.5 + fl (of_nat 2 / 10))) 1 = fl 3.7"
  "py_round (fl (3.5 + fl (of_nat 3 / 10))) 1 = fl 3.8"
  "py_round (fl (3.5 + fl (of_nat 4 / 10))) 1 = fl 3.9"
  "py_round (fl (3.5 + fl (of_nat 5 / 10))) 1 = fl 4.0"
  "py_round (fl (3.5 + fl (of_nat 6 / 10))) 1 = fl 4.1"
  "py_round (fl (3.5 + fl (of_nat 7 / 10))) 1 = fl 4.2"
  "py_round (fl (3.5 + fl (of_nat 8 / 10))) 1 = fl 4.3"
  "py_round (fl (3.5 + fl (of_nat 9 / 10))) 1 = fl 4.4"
  "py_round (fl (3.5 + fl (of_nat 10 / 10))) 1 = fl 4.5"
  "py_round (fl (3.5 + fl (of_nat 11 / 10))) 1 = fl 4.6"
  "py_round (fl (3.5 + fl (of_nat 12 / 10))) 1 = fl 4.7"
  "py_round (fl (3.5 + fl (of_nat 13 / 10))) 1 = fl 4.8"
  "py_round (fl (3.5 + fl (of_nat 14 / 10))) 1 = fl 4.9"
  "py_round (fl (3.5 + fl (of_nat 15 / 10))) 1 = fl 5.0"
  by code_simp+

lemma decimal_of_residue:
  "fl (of_nat (35 + 0) / 10) = fl 3.5" "fl (of_nat (35 + 1) / 10) = fl 3.6"
  "fl (of_nat (35 + 2) / 10) = fl 3.7" "fl (of_nat (35 + 3) / 10) = fl 3.8"
  "fl (of_nat (35 + 4) / 10) = fl 3.9" "fl (of_nat (35 + 5) / 10) = fl 4.0"
  "fl (of_nat (35 + 6) / 10) = fl 4.1" "fl (of_nat (35 + 7) / 10) = fl 4.2"
  "fl (of_nat (35 + 8) / 10) = fl 4.3" "fl (of_nat (35 + 9) / 10) = fl 4.4"
  "fl (of_nat (35 + 10) / 10) = fl 4.5" "fl (of_nat (35 + 11) / 10) = fl 4.6"
  "fl (of_nat (35 + 12) / 10) = fl 4.7" "fl (of_nat (35 + 13) / 10) = fl 4.8"
  "fl (of_nat (35 + 14) / 10) = fl 4.9" "fl (of_nat (35 + 15) / 10) = fl 5.0"
  by simp_all

lemma residue_cases:
  "(k::nat) < 16 \<Longrightarrow> k \<in> {0, 1, 2, 3, 4, 5, 6, 7, 8, 9, 10, 11, 12, 13, 14, 15}"
  unfolding insert_iff empty_iff by arith

text \<open>
  C1. For every name, \<open>generate_rating\<close> is \<open>round(3.5 + (h mod 16) / 10.0, 1)\<close> for the
  128-bit digest \<open>h\<close> of the name, computed on doubles. Its value is the double that the
  decimal \<open>3.5 + (h mod 16) / 10\<close> denotes, so it is one of the sixteen doubles written
  3.5, 3.6, ..., 5.0. The function reads nothing but the digest of the name, so two
  calls with the same name give the same value.
\<close>

theorem generate_rating_values:
  "generate_rating md5 name
     = py_round (fl (3.5 + fl (of_nat (unat (md5 name) mod 16) / 10))) 1
   \<and> generate_rating md5 name = fl (of_nat (35 + unat (md5 name) mod 16) / 10)
   \<and> generate_rating md5 name \<in>
       {fl 3.5, fl 3.6, fl 3.7, fl 3.8, fl 3.9, fl 4.0, fl 4.1, fl 4.2,
        fl 4.3, fl 4.4, fl 4.5, fl 4.6, fl 4.7, fl 4.8, fl 4.9, fl 5.0}"
proof -
  have "unat (md5 name) mod 16 < 16" by simp
  then have "unat (md5 name) mod 16 \<in> {0, 1, 2, 3, 4, 5, 6, 7, 8, 9, 10, 11, 12, 13, 14, 15}"
    by (rule residue_cases)
  then show ?thesis
    unfolding generate_rating_def Let_def
    by (elim insertE emptyE)
      (simp_all only: rating_of_residue decimal_of_residue insert_iff simp_thms)
qed

theorem generate_rating_values_witness:
  "generate_rating length_digest ''Taj Mahal'' = fl 4.4"
proof -
  have k: "unat (length_digest ''Taj Mahal'') mod 16 = 9"
    by (simp add: length_digest_def)
  have "generate_rating length_digest ''Taj Mahal''
      = fl (of_nat (35 + unat (length_digest ''Taj Mahal'') mod 16) / 10)"
    using generate_rating_values [of length_digest "''Taj Mahal''"] by blast
  then show ?thesis
    by (simp only: k decimal_of_residue)
qed


section \<open>The ranker\<close>

lemma rank_key_sorted:
  "sorted_wrt (\<lambda>a b. rank_key b \<le> rank_key a) (rank_places places)"
  unfolding rank_places_def sorted_wrt_rev
  using sorted_sort_key [of rank_key "rev places"]
  by (simp add: sorted_map)

text \<open>
  C6. \<open>rank_places\<close> returns a permutation of its input. The output is in non-increasing
  order of the pair (rating or 0, review count or 0) compared lexicographically: of two
  places the later one has the smaller rating, or the same rating and a review count
  that is not larger; so the ratings never increase. The sort is stable: the places
  with any one rating and review count stand in the output in the order they have in
  the input.
\<close>

theorem rank_places_sorted_stable:
  "mset (rank_places places) = mset places
   \<and> sorted_wrt
        (\<lambda>a b. (case pl_rating b of None \<Rightarrow> 0 | Some r \<Rightarrow> r)
                  < (case pl_rating a of None \<Rightarrow> 0 | Some r \<Rightarrow> r)
              \<or> ((case pl_rating b of None \<Rightarrow> 0 | Some r \<Rightarrow> r)
                    = (case pl_rating a of None \<Rightarrow> 0 | Some r \<Rightarrow> r)
                  \<and> (case pl_review_count b of None \<Rightarrow> 0 | Some n \<Rightarrow> n)
                    \<le> (case pl_review_count a of None \<Rightarrow> 0 | Some n \<Rightarrow> n)))
        (rank_places places)
   \<and> sorted_wrt
        (\<lambda>a b. (case pl_rating b of None \<Rightarrow> 0 | Some r \<Rightarrow> r)
                  \<le> (case pl_rating a of None \<Rightarrow> 0 | Some r \<Rightarrow> r))
        (rank_places places)
   \<and> (\<forall>r n. filter (\<lambda>x. (case pl_rating x of None \<Rightarrow> 0 | Some v \<Rightarrow> v) = r
                         \<and> (case pl_review_count x of None \<Rightarrow> 0 | Some v \<Rightarrow> v) = n)
                (rank_places places)
            = filter (\<lambda>x. (case pl_rating x of None \<Rightarrow> 0 | Some v \<Rightarrow> v) = r
                         \<and> (case pl_review_count x of None \<Rightarrow> 0 | Some v \<Rightarrow> v) = n)
                places)"
proof (intro conjI allI)
  show "mset (rank_places places) = mset places"
    by (simp add: rank_places_def)
  have lex: "rank_key b \<le> rank_key a \<longleftrightarrow>
      (case pl_rating b of None \<Rightarrow> 0 | Some r \<Rightarrow> r)
        < (case pl_rating a of None \<Rightarrow> 0 | Some r \<Rightarrow> r)
      \<or> ((case pl_rating b of None \<Rightarrow> 0 | Some r \<Rightarrow> r)
            = (case pl_rating a of None \<Rightarrow> 0 | Some r \<Rightarrow> r)
          \<and> (case pl_review_count b of None \<Rightarrow> 0 | Some n \<Rightarrow> n)
            \<le> (case pl_review_count a of None \<Rightarrow> 0 | Some n \<Rightarrow> n))" for a b
    by (auto simp: rank_key_def less_eq_prod_def)
  show "sorted_wrt
        (\<lambda>a b. (case pl_rating b of None \<Rightarrow> 0 | Some r \<Rightarrow> r)
                  < (case pl_rating a of None \<Rightarrow> 0 | Some r \<Rightarrow> r)
              \<or> ((case pl_rating b of None \<Rightarrow> 0 | Some r \<Rightarrow> r)
                    = (case pl_rating a of None \<Rightarrow> 0 | Some r \<Rightarrow> r)
                  \<and> (case pl_review_count b of None \<Rightarrow> 0 | Some n \<Rightarrow> n)
                    \<le> (case pl_review_count a of None \<Rightarrow> 0 | Some n \<Rightarrow> n)))
        (rank_places places)"
    using rank_key_sorted [of places] by (simp only: lex)
  show "sorted_wrt
        (\<lambda>a b. (case pl_rating b of None \<Rightarrow> 0 | Some r \<Rightarrow> r)
                  \<le> (case pl_rating a of None \<Rightarrow> 0 | Some r \<Rightarrow> r))
        (rank_places places)"
    by (rule sorted_wrt_mono_rel [OF _ rank_key_sorted]) (auto simp: lex)
  have key: "(\<lambda>x. (case pl_rating x of None \<Rightarrow> 0 | Some v \<Rightarrow> v) = r
                 \<and> (case pl_review_count x of None \<Rightarrow> 0 | Some v \<Rightarrow> v) = n)
      = (\<lambda>x. rank_key x = (r, n))" for r n
    by (auto simp: rank_key_def)
  show "filter (\<lambda>x. (case pl_rating x of None \<Rightarrow> 0 | Some v \<Rightarrow> v) = r
                         \<and> (case pl_review_count x of None \<Rightarrow> 0 | Some v \<Rightarrow> v) = n)
                (rank_places places)
            = filter (\<lambda>x. (case pl_rating x of None \<Rightarrow> 0 | Some v \<Rightarrow> v) = r
                         \<and> (case pl_review_count x of None \<Rightarrow> 0 | Some v \<Rightarrow> v) = n)
                places" for r n
    unfolding key rank_places_def
    by (simp add: rev_filter [symmetric] sort_key_stable)
qed

theorem rank_places_sorted_stable_witness:
  "map pl_name (rank_places
     [place_of ''third'' (Some 4) (Some 10), place_of ''first'' (Some 5) None,
      place_of ''second'' (Some 4) (Some 20), place_of ''fourth'' (Some 4) (Some 10),
      place_of ''fifth'' None (Some 7)])
   = [''first'', ''second'', ''third'', ''fourth'', ''fifth'']
   \<and> map pl_name (filter (\<lambda>x. (case pl_rating x of None \<Rightarrow> 0 | Some v \<Rightarrow> v) = 4
                             \<and> (case pl_review_count x of None \<Rightarrow> 0 | Some v \<Rightarrow> v) = 10)
       (rank_places
          [place_of ''third'' (Some 4) (Some 10), place_of ''first'' (Some 5) None,
           place_of ''second'' (Some 4) (Some 20), place_of ''fourth'' (Some 4) (Some 10),
           place_of ''fifth'' None (Some 7)]))
   = [''third'', ''fourth'']"
proof -
  let ?ps = "[place_of ''third'' (Some 4) (Some 10), place_of ''first'' (Some 5) None,
      place_of ''second'' (Some 4) (Some 20), place_of ''fourth'' (Some 4) (Some 10),
      place_of ''fifth'' None (Some 7)]"
  have run: "map pl_name (rank_places ?ps) = [''first'', ''second'', ''third'', ''fourth'', ''fifth'']"
    by (simp add: rank_places_def rank_key_def less_eq_prod_def place_of_def)
  have "filter (\<lambda>x. (case pl_rating x of None \<Rightarrow> 0 | Some v \<Rightarrow> v) = 4
                   \<and> (case pl_review_count x of None \<Rightarrow> 0 | Some v \<Rightarrow> v) = 10) (rank_places ?ps)
      = filter (\<lambda>x. (case pl_rating x of None \<Rightarrow> 0 | Some v \<Rightarrow> v) = 4
                   \<and> (case pl_review_count x of None \<Rightarrow> 0 | Some v \<Rightarrow> v) = 10) ?ps"
    using rank_places_sorted_stable [of ?ps] by blast
  then have "map pl_name (filter (\<lambda>x. (case pl_rating x of None \<Rightarrow> 0 | Some v \<Rightarrow> v) = 4
                   \<and> (case pl_review_count x of None \<Rightarrow> 0 | Some v \<Rightarrow> v) = 10) (rank_places ?ps))
      = [''third'', ''fourth'']"
    by (simp add: place_of_def)
  with run show ?thesis by simp
qed


section \<open>The cache\<close>

lemma normalize_examples:
  "normalize_city basic_str ''Paris '' = ''paris''"
  "normalize_city basic_str ''paris'' = ''paris''"
  "normalize_city basic_str ''rome'' = ''rome''"
  "normalize_city basic_str ([CHR 0xC2, CHR 0xA0] @ ''PARIS'' @ [CHR 0xE2, CHR 0x80, CHR 0x89]) = ''paris''"
  by code_simp+







text \<open>
  C5. On a store that answers, an entry with a \<open>cached_at\<close> time reads as its payload when
  less than 24 hours have passed since that time and as a miss otherwise, at every later
  time too; the read leaves the collection as it was.
\<close>

theorem read_fresh_iff:
  assumes "reachable c" and "docs c (normalize_city S city) = Some d"
    and "doc_cached_at d = Some t0"
  shows "get_cached_data S now c city = Inr (if now - t0 < ttl then doc_data d else None, c)
     \<and> (\<forall>p. doc_data d = Some p \<longrightarrow>
           (get_cached_data S now c city = Inr (Some p, c) \<longleftrightarrow> now - t0 < ttl))
     \<and> (ttl \<le> now - t0 \<longrightarrow> (\<forall>later \<ge> now. get_cached_data S later c city = Inr (None, c)))
     \<and> ttl = 24 * 60 * 60 * 1000000"
  using assms
  by (auto simp: get_cached_data_def get_cached_try_def find_one_def ttl_def)

theorem read_fresh_iff_witness:
  "get_cached_data basic_str 82800000000
      (empty_store\<lparr>docs := [''paris'' \<mapsto> \<lparr>doc_data = Some ''P'', doc_cached_at = Some 0\<rparr>]\<rparr>)
      ''Paris ''
     = Inr (Some ''P'',
        empty_store\<lparr>docs := [''paris'' \<mapsto> \<lparr>doc_data = Some ''P'', doc_cached_at = Some 0\<rparr>]\<rparr>)
   \<and> get_cached_data basic_str 90000000000
      (empty_store\<lparr>docs := [''paris'' \<mapsto> \<lparr>doc_data = Some ''P'', doc_cached_at = Some 0\<rparr>]\<rparr>)
      ''Paris ''
     = Inr (None,
        empty_store\<lparr>docs := [''paris'' \<mapsto> \<lparr>doc_data = Some ''P'', doc_cached_at = Some 0\<rparr>]\<rparr>)"
proof -
  let ?d = "\<lparr>doc_data = Some ''P'', doc_cached_at = Some (0::int)\<rparr>"
  let ?c = "empty_store\<lparr>docs := [''paris'' \<mapsto> ?d]\<rparr>"
  have r: "reachable ?c" by (simp add: empty_store_def)
  have d: "docs ?c (normalize_city basic_str ''Paris '') = Some ?d"
    by (simp add: normalize_examples)
  have t: "doc_cached_at ?d = Some 0" by simp
  from read_fresh_iff [OF r d t, of 82800000000] read_fresh_iff [OF r d t, of 90000000000]
  show ?thesis by (simp add: ttl_def)
qed

text \<open>
  C9. On a store that answers, an entry without a \<open>cached_at\<close> time reads as its payload
  at every time.
\<close>

theorem no_timestamp_always_fresh:
  assumes "reachable c" and "docs c (normalize_city S city) = Some d"
    and "doc_cached_at d = None"
  shows "\<forall>now. get_cached_data S now c city = Inr (doc_data d, c)"
  using assms
  by (simp add: get_cached_data_def get_cached_try_def find_one_def)

theorem no_timestamp_always_fresh_witness:
  "get_cached_data basic_str 999999999999999
      (empty_store\<lparr>docs := [''paris'' \<mapsto> \<lparr>doc_data = Some ''P'', doc_cached_at = None\<rparr>]\<rparr>)
      ''Paris ''
     = Inr (Some ''P'',
        empty_store\<lparr>docs := [''paris'' \<mapsto> \<lparr>doc_data = Some ''P'', doc_cached_at = None\<rparr>]\<rparr>)"
proof -
  let ?d = "\<lparr>doc_data = Some ''P'', doc_cached_at = None\<rparr>"
  let ?c = "empty_store\<lparr>docs := [''paris'' \<mapsto> ?d]\<rparr>"
  have r: "reachable ?c" by (simp add: empty_store_def)
  have d: "docs ?c (normalize_city basic_str ''Paris '') = Some ?d"
    by (simp add: normalize_examples)
  have t: "doc_cached_at ?d = None" by simp
  from no_timestamp_always_fresh [OF r d t]
  show ?thesis by simp
qed

text \<open>
  C10. \<open>cache_data\<close> and \<open>get_cached_data\<close> return normally on every input and every
  store; when the store fails or the driver does not encode the payload, the write
  leaves the collection as it was, and when the store fails the read reports a miss.
\<close>

theorem cache_failures_swallowed:
  "(\<exists>c'. cache_data S now c city payload = Inr c')
   \<and> (\<not> reachable c \<longrightarrow> cache_data S now c city payload = Inr c)
   \<and> (\<not> encodable c payload \<longrightarrow> cache_data S now c city payload = Inr c)
   \<and> (\<exists>r. get_cached_data S now c city = Inr (r, c))
   \<and> (\<not> reachable c \<longrightarrow> get_cached_data S now c city = Inr (None, c))"
  by (auto simp: cache_data_def cache_data_try_def update_one_upsert_def get_cached_data_def
      get_cached_try_def find_one_def Let_def split: option.splits sum.splits)

theorem cache_failures_swallowed_witness:
  "cache_data basic_str 7
      (empty_store\<lparr>docs := [''paris'' \<mapsto> \<lparr>doc_data = Some ''P'', doc_cached_at = Some 0\<rparr>],
                   reachable := False\<rparr>) ''Paris'' ''Q''
     = Inr (empty_store\<lparr>docs := [''paris'' \<mapsto> \<lparr>doc_data = Some ''P'', doc_cached_at = Some 0\<rparr>],
                        reachable := False\<rparr>)
   \<and> get_cached_data basic_str 7
       (empty_store\<lparr>docs := [''paris'' \<mapsto> \<lparr>doc_data = Some ''P'', doc_cached_at = Some 0\<rparr>],
                   reachable := False\<rparr>) ''Paris''
     = Inr (None,
        empty_store\<lparr>docs := [''paris'' \<mapsto> \<lparr>doc_data = Some ''P'', doc_cached_at = Some 0\<rparr>],
                    reachable := False\<rparr>)"
proof -
  let ?c = "empty_store\<lparr>docs := [''paris'' \<mapsto> \<lparr>doc_data = Some ''P'', doc_cached_at = Some (0::int)\<rparr>],
             reachable := False\<rparr>"
  have r: "\<not> reachable ?c" by simp
  from r cache_failures_swallowed [of basic_str 7 ?c "''Paris''" "''Q''"]
  show ?thesis by blast
qed


section \<open>The classifiers and the insight generator\<close>

lemma categorize_attraction_first_match:
  "categorize_attraction_type S kinds = first_match ATTRACTION_RULES (str_lower S kinds)"
  by (simp only: categorize_attraction_type_def ATTRACTION_RULES_def first_match.simps
      any_keyword_in_iff Let_def)

lemma categorize_hotel_first_match:
  "categorize_hotel_type S name kinds = first_match HOTEL_RULES (str_lower S (name @ '' '' @ kinds))"
  by (simp only: categorize_hotel_type_def HOTEL_RULES_def first_match.simps
      any_keyword_in_iff Let_def)

lemma categorize_restaurant_first_match:
  "categorize_restaurant_type S name kinds = first_match RESTAURANT_RULES (str_lower S (name @ '' '' @ kinds))"
  by (simp only: categorize_restaurant_type_def RESTAURANT_RULES_def first_match.simps
      any_keyword_in_iff Let_def)

lemma first_match_label: "first_match rules t \<in> insert ''default'' (fst ` set rules)"
  by (induction rules t rule: first_match.induct) auto

lemma first_match_default:
  "\<forall>(label, keywords) \<in> set rules. \<forall>k \<in> set keywords. \<not> sublist k t \<Longrightarrow> first_match rules t = ''default''"
  by (induction rules t rule: first_match.induct) auto

lemma first_match_first:
  "first_match (earlier @ (label, keywords) # later) t = label"
  if "\<forall>(l, ks) \<in> set earlier. \<forall>k \<in> set ks. \<not> sublist k t" and "\<exists>k \<in> set keywords. sublist k t"
  using that by (induction earlier t rule: first_match.induct) auto

lemma dict_get_in: "dict_get d k dflt = dflt \<or> dict_get d k dflt \<in> snd ` set d"
  by (force simp: dict_get_def split: option.splits dest: map_of_SomeD)

lemma default_pools:
  "dict_item ATTRACTION_INSIGHTS ''default'' = Inr (dict_get ATTRACTION_INSIGHTS ''default'' [])"
  "dict_item HOTEL_INSIGHTS ''default'' = Inr (dict_get HOTEL_INSIGHTS ''default'' [])"
  "dict_item RESTAURANT_INSIGHTS ''default'' = Inr (dict_get RESTAURANT_INSIGHTS ''default'' [])"
  "dict_get ATTRACTION_INSIGHTS ''default'' [] \<in> snd ` set ATTRACTION_INSIGHTS"
  "dict_get HOTEL_INSIGHTS ''default'' [] \<in> snd ` set HOTEL_INSIGHTS"
  "dict_get RESTAURANT_INSIGHTS ''default'' [] \<in> snd ` set RESTAURANT_INSIGHTS"
  by (simp_all add: dict_item_def dict_get_def ATTRACTION_INSIGHTS_def HOTEL_INSIGHTS_def
      RESTAURANT_INSIGHTS_def)

lemma pools_nonempty:
  "pool \<in> snd ` set (ATTRACTION_INSIGHTS @ HOTEL_INSIGHTS @ RESTAURANT_INSIGHTS) \<Longrightarrow> length pool = 3"
  by (auto simp: ATTRACTION_INSIGHTS_def HOTEL_INSIGHTS_def RESTAURANT_INSIGHTS_def)

lemma pool_templates:
  "pool \<in> snd ` set (ATTRACTION_INSIGHTS @ HOTEL_INSIGHTS @ RESTAURANT_INSIGHTS) \<Longrightarrow> set pool \<subseteq> set all_templates"
  unfolding all_templates_def by auto

lemma select_insights_pool:
  "select_insights S name category kinds = Some r \<Longrightarrow>
     \<exists>pool. r = Inr pool \<and> pool \<in> snd ` set (ATTRACTION_INSIGHTS @ HOTEL_INSIGHTS @ RESTAURANT_INSIGHTS)"
  using dict_get_in [of ATTRACTION_INSIGHTS "categorize_attraction_type S kinds" "dict_get ATTRACTION_INSIGHTS ''default'' []"]
    dict_get_in [of HOTEL_INSIGHTS "categorize_hotel_type S name kinds" "dict_get HOTEL_INSIGHTS ''default'' []"]
    dict_get_in [of RESTAURANT_INSIGHTS "categorize_restaurant_type S name kinds" "dict_get RESTAURANT_INSIGHTS ''default'' []"]
    default_pools(4-6)
  unfolding select_insights_def Let_def default_pools(1-3)
  by (auto split: if_splits)

lemma select_insights_None:
  "select_insights S name category kinds = None \<longleftrightarrow> category \<notin> {''attractions'', ''hotels'', ''restaurants''}"
  unfolding select_insights_def Let_def by simp

lemma random_choice_in_range:
  assumes "rng_in_range R" and "seq \<noteq> []"
  shows "\<exists>t g'. random_choice R g seq = (Inr t, g') \<and> t \<in> set seq"
proof -
  obtain i g' where d: "rng_randbelow R g (length seq) = (i, g')" by (cases "rng_randbelow R g (length seq)")
  from assms have "fst (rng_randbelow R g (length seq)) < length seq"
    unfolding rng_in_range_def by simp
  with d have "i < length seq" by simp
  with d assms(2) show ?thesis by (simp add: random_choice_def)
qed


lemma generate_insight_unknown:
  "category \<notin> {''attractions'', ''hotels'', ''restaurants''} \<Longrightarrow>
     generate_insight S R h g name category kinds rating
       = (Inr ''A great place to visit and explore.'', rng_seed R (h name mod 10000))"
  by (simp add: generate_insight_def select_insights_def Let_def)

lemma generate_insight_total:
  assumes "rng_in_range R"
  shows "\<exists>s g'. generate_insight S R h g name category kinds rating = (Inr s, g')
           \<and> (category \<notin> {''attractions'', ''hotels'', ''restaurants''}
                 \<and> s = ''A great place to visit and explore.''
               \<or> (\<exists>pool t. select_insights S name category kinds = Some (Inr pool)
                     \<and> t \<in> set pool \<and> t \<in> set all_templates
                     \<and> s = t @ insight_suffix rating))"
proof (cases "select_insights S name category kinds")
  case None
  then have "category \<notin> {''attractions'', ''hotels'', ''restaurants''}"
    by (simp add: select_insights_None)
  then show ?thesis
    using generate_insight_unknown [of category S R h g name kinds rating] by blast
next
  case (Some r)
  from select_insights_pool [OF Some] obtain pool where
    r: "r = Inr pool" and
    pool: "pool \<in> snd ` set (ATTRACTION_INSIGHTS @ HOTEL_INSIGHTS @ RESTAURANT_INSIGHTS)"
    by blast
  from pools_nonempty [OF pool] have ne: "pool \<noteq> []" by auto
  from random_choice_in_range [OF assms ne, of "rng_seed R (h name mod 10000)"]
  obtain t g' where
    ch: "random_choice R (rng_seed R (h name mod 10000)) pool = (Inr t, g')" and t: "t \<in> set pool"
    by blast
  from t pool_templates [OF pool] have "t \<in> set all_templates" by blast
  with Some r ch t show ?thesis
    by (simp add: generate_insight_def Let_def)
qed

lemma insight_suffix_zero: "insight_suffix 0 = []"
  by (simp add: insight_suffix_def)

lemma rule_labels:
  "fst ` set ATTRACTION_RULES = {''historic'', ''nature'', ''religious'', ''entertainment''}"
  "fst ` set HOTEL_RULES = {''luxury'', ''boutique'', ''budget''}"
  "fst ` set RESTAURANT_RULES = {''fine_dining'', ''street_food'', ''casual''}"
  by (simp_all add: ATTRACTION_RULES_def HOTEL_RULES_def RESTAURANT_RULES_def)

lemma attraction_labels:
  "categorize_attraction_type S kinds
     \<in> {''historic'', ''nature'', ''religious'', ''entertainment'', ''default''}"
  using first_match_label [of ATTRACTION_RULES "str_lower S kinds"]
  unfolding categorize_attraction_first_match rule_labels by blast

lemma hotel_labels:
  "categorize_hotel_type S name kinds \<in> {''luxury'', ''boutique'', ''budget'', ''default''}"
  using first_match_label [of HOTEL_RULES "str_lower S (name @ '' '' @ kinds)"]
  unfolding categorize_hotel_first_match rule_labels by blast

lemma restaurant_labels:
  "categorize_restaurant_type S name kinds
     \<in> {''fine_dining'', ''street_food'', ''casual'', ''default''}"
  using first_match_label [of RESTAURANT_RULES "str_lower S (name @ '' '' @ kinds)"]
  unfolding categorize_restaurant_first_match rule_labels by blast

lemma category_label_known:
  "category_label S name ''attractions'' kinds = Some (categorize_attraction_type S kinds)"
  "category_label S name ''hotels'' kinds = Some (categorize_hotel_type S name kinds)"
  "category_label S name ''restaurants'' kinds = Some (categorize_restaurant_type S name kinds)"
  by (simp_all add: category_label_def)

lemma category_label_unknown:
  "category \<notin> {''attractions'', ''hotels'', ''restaurants''} \<Longrightarrow>
     category_label S name category kinds = None"
  by (simp add: category_label_def)

lemma pools_distinct:
  "pool \<in> snd ` set (ATTRACTION_INSIGHTS @ HOTEL_INSIGHTS @ RESTAURANT_INSIGHTS) \<Longrightarrow> distinct pool"
proof -
  have "list_all distinct (map snd (ATTRACTION_INSIGHTS @ HOTEL_INSIGHTS @ RESTAURANT_INSIGHTS))"
    by code_simp
  then show "pool \<in> snd ` set (ATTRACTION_INSIGHTS @ HOTEL_INSIGHTS @ RESTAURANT_INSIGHTS)
      \<Longrightarrow> distinct pool"
    by (auto simp: list_all_iff)
qed

lemma generate_insight_draw:
  assumes "select_insights S name category kinds = Some (Inr pool)" and "pool \<noteq> []"
    and "fst (rng_randbelow R (rng_seed R (h name mod 10000)) (length pool)) < length pool"
  shows "fst (generate_insight S R h g name category kinds rating)
     = Inr (pool ! fst (rng_randbelow R (rng_seed R (h name mod 10000)) (length pool))
            @ insight_suffix rating)"
  using assms
  by (auto simp: generate_insight_def random_choice_def Let_def split: prod.splits)

text \<open>
  C7, as the code has it. Each of the three classifiers is the first-match evaluation of
  its ordered rule table on its text (the lowercased tags for an attraction, the
  lowercased name, a space and the tags for a hotel and a restaurant), and its label is in
  the closed label set of its kind. \<open>first_match\<close> gives \<open>default\<close> when no keyword of any
  rule occurs in the text, and the label of a rule with a keyword in the text when no
  earlier rule has one. The categories \<open>attractions\<close>, \<open>hotels\<close> and \<open>restaurants\<close>
  are classified so; for any other category \<open>generate_insight\<close> computes no label and
  returns the fixed sentence. This holds whatever \<open>str.lower()\<close> does.
\<close>

theorem classifiers_first_match:
  "categorize_attraction_type S kinds = first_match ATTRACTION_RULES (str_lower S kinds)
   \<and> categorize_hotel_type S name kinds
       = first_match HOTEL_RULES (str_lower S (name @ '' '' @ kinds))
   \<and> categorize_restaurant_type S name kinds
       = first_match RESTAURANT_RULES (str_lower S (name @ '' '' @ kinds))
   \<and> categorize_attraction_type S kinds
       \<in> {''historic'', ''nature'', ''religious'', ''entertainment'', ''default''}
   \<and> categorize_hotel_type S name kinds \<in> {''luxury'', ''boutique'', ''budget'', ''default''}
   \<and> categorize_restaurant_type S name kinds
       \<in> {''fine_dining'', ''street_food'', ''casual'', ''default''}
   \<and> (\<forall>rules t. (\<forall>(label, keywords) \<in> set rules. \<forall>k \<in> set keywords. \<not> sublist k t)
         \<longrightarrow> first_match rules t = ''default'')
   \<and> (\<forall>earlier label keywords later t.
         (\<forall>(l, ks) \<in> set earlier. \<forall>k \<in> set ks. \<not> sublist k t)
         \<and> (\<exists>k \<in> set keywords. sublist k t)
         \<longrightarrow> first_match (earlier @ (label, keywords) # later) t = label)
   \<and> category_label S name ''attractions'' kinds = Some (categorize_attraction_type S kinds)
   \<and> category_label S name ''hotels'' kinds = Some (categorize_hotel_type S name kinds)
   \<and> category_label S name ''restaurants'' kinds
       = Some (categorize_restaurant_type S name kinds)
   \<and> (category \<notin> {''attractions'', ''hotels'', ''restaurants''}
        \<longrightarrow> category_label S name category kinds = None
          \<and> fst (generate_insight S R h g name category kinds rating)
              = Inr ''A great place to visit and explore.'')"
proof -
  have default: "\<forall>rules t. (\<forall>(label, keywords) \<in> set rules. \<forall>k \<in> set keywords. \<not> sublist k t)
         \<longrightarrow> first_match rules t = ''default''"
    using first_match_default by blast
  have first: "\<forall>earlier label keywords later t.
         (\<forall>(l, ks) \<in> set earlier. \<forall>k \<in> set ks. \<not> sublist k t)
         \<and> (\<exists>k \<in> set keywords. sublist k t)
         \<longrightarrow> first_match (earlier @ (label, keywords) # later) t = label"
    using first_match_first by blast
  have unknown: "category \<notin> {''attractions'', ''hotels'', ''restaurants''}
        \<longrightarrow> category_label S name category kinds = None
          \<and> fst (generate_insight S R h g name category kinds rating)
              = Inr ''A great place to visit and explore.''"
    using category_label_unknown [of category S name kinds]
      generate_insight_unknown [of category S R h g name kinds rating]
    by (metis fst_conv)
  show ?thesis
    by (intro conjI categorize_attraction_first_match categorize_hotel_first_match
        categorize_restaurant_first_match attraction_labels hotel_labels restaurant_labels
        default first category_label_known unknown)
qed

text \<open>
  Runs on texts that need their capitals folded: a hotel whose text has keywords of the
  rules \<open>luxury\<close> and \<open>boutique\<close>, a restaurant whose text has keywords of \<open>street_food\<close>
  and \<open>casual\<close>, tags with no keyword, tags that end in the Kelvin sign, which
  \<open>str.lower()\<close> turns into the \<open>k\<close> of \<open>park\<close>, and a category that is not classified.
\<close>

theorem classifiers_first_match_witness:
  "categorize_hotel_type basic_str ''Taj Mahal Palace Hotel'' ''luxury,heritage'' = ''luxury''
   \<and> categorize_restaurant_type basic_str ''Chai STALL'' ''Catering.Cafe'' = ''street_food''
   \<and> categorize_attraction_type basic_str ''tourism,tourism.sights'' = ''default''
   \<and> categorize_attraction_type basic_str (''LEISURE.PAR'' @ [CHR 0xE2, CHR 0x84, CHR 0xAA])
       = ''nature''
   \<and> category_label basic_str ''Louvre'' ''museums'' ''museum'' = None
   \<and> fst (generate_insight basic_str counter_rng length_hash 0 ''Louvre'' ''museums'' ''museum'' 0)
        = Inr ''A great place to visit and explore.''"
proof -
  note c = classifiers_first_match [where S = basic_str and kinds = "''museum''"
      and name = "''Louvre''" and category = "''museums''" and R = counter_rng
      and h = length_hash and g = 0 and rating = 0]
  note rest = c [THEN conjunct2, THEN conjunct2, THEN conjunct2, THEN conjunct2,
      THEN conjunct2, THEN conjunct2]
  note d = rest [THEN conjunct1]
  note f = rest [THEN conjunct2, THEN conjunct1]
  note u = rest [THEN conjunct2, THEN conjunct2, THEN conjunct2, THEN conjunct2, THEN conjunct2]
  have unknown: "''museums'' \<notin> {''attractions'', ''hotels'', ''restaurants''}" by simp
  have none: "\<forall>(label, keywords) \<in> set ATTRACTION_RULES.
      \<forall>k \<in> set keywords. \<not> sublist k (str_lower basic_str ''tourism,tourism.sights'')"
    by code_simp
  have hotel: "(\<forall>(l, ks) \<in> set []. \<forall>k \<in> set ks.
          \<not> sublist k (str_lower basic_str (''Taj Mahal Palace Hotel'' @ '' '' @ ''luxury,heritage'')))
      \<and> (\<exists>k \<in> set [''luxury'', ''premium'', ''5-star'', ''resort'', ''palace'', ''spa''].
            sublist k (str_lower basic_str (''Taj Mahal Palace Hotel'' @ '' '' @ ''luxury,heritage'')))"
    by code_simp
  have restaurant: "(\<forall>(l, ks) \<in> set [(''fine_dining'',
            [''fine dining'', ''gourmet'', ''luxury'', ''premium'', ''5-star''])].
          \<forall>k \<in> set ks. \<not> sublist k (str_lower basic_str (''Chai STALL'' @ '' '' @ ''Catering.Cafe'')))
      \<and> (\<exists>k \<in> set [''street food'', ''fast food'', ''food court'', ''stall''].
            sublist k (str_lower basic_str (''Chai STALL'' @ '' '' @ ''Catering.Cafe'')))"
    by code_simp
  have park: "(\<forall>(l, ks) \<in> set [(''historic'', [''historic'', ''cultural'', ''architecture'',
            ''monument'', ''museum'', ''fort'', ''palace''])].
          \<forall>k \<in> set ks.
            \<not> sublist k (str_lower basic_str (''LEISURE.PAR'' @ [CHR 0xE2, CHR 0x84, CHR 0xAA])))
      \<and> (\<exists>k \<in> set [''natural'', ''park'', ''garden'', ''beach'', ''mountain'', ''lake'', ''nature''].
            sublist k (str_lower basic_str (''LEISURE.PAR'' @ [CHR 0xE2, CHR 0x84, CHR 0xAA])))"
    by code_simp
  note a = d [THEN spec, THEN spec, THEN mp, OF none]
  note fh = f [THEN spec, THEN spec, THEN spec, THEN spec, THEN spec, THEN mp, OF hotel]
  note fr = f [THEN spec, THEN spec, THEN spec, THEN spec, THEN spec, THEN mp, OF restaurant]
  note fp = f [THEN spec, THEN spec, THEN spec, THEN spec, THEN spec, THEN mp, OF park]
  have h: "first_match HOTEL_RULES
      (str_lower basic_str (''Taj Mahal Palace Hotel'' @ '' '' @ ''luxury,heritage'')) = ''luxury''"
    unfolding HOTEL_RULES_def
    using fh [of "''luxury''" "[(''boutique'', [''boutique'', ''heritage'', ''charming'', ''unique'']),
      (''budget'', [''hostel'', ''budget'', ''economy'', ''cheap''])]"]
    by (simp only: append_Nil)
  have r: "first_match RESTAURANT_RULES
      (str_lower basic_str (''Chai STALL'' @ '' '' @ ''Catering.Cafe'')) = ''street_food''"
    unfolding RESTAURANT_RULES_def
    using fr [of "''street_food''" "[(''casual'', [''cafe'', ''casual'', ''bistro'', ''diner''])]"]
    by (simp only: append_Nil append_Cons)
  have p: "first_match ATTRACTION_RULES
      (str_lower basic_str (''LEISURE.PAR'' @ [CHR 0xE2, CHR 0x84, CHR 0xAA])) = ''nature''"
    unfolding ATTRACTION_RULES_def
    using fp [of "''nature''" "[(''religious'', [''religion'', ''temple'', ''church'', ''mosque'',
        ''gurdwara'', ''shrine'', ''spiritual'']),
      (''entertainment'', [''amusement'', ''entertainment'', ''zoo'', ''aquarium'', ''theater'',
        ''cinema''])]"]
    by (simp only: append_Nil append_Cons)
  note a' = classifiers_first_match [where S = basic_str and kinds = "''tourism,tourism.sights''",
      THEN conjunct1]
  note p' = classifiers_first_match [where S = basic_str
      and kinds = "''LEISURE.PAR'' @ [CHR 0xE2, CHR 0x84, CHR 0xAA]", THEN conjunct1]
  note h' = classifiers_first_match [where S = basic_str and kinds = "''luxury,heritage''"
      and name = "''Taj Mahal Palace Hotel''", THEN conjunct2, THEN conjunct1]
  note r' = classifiers_first_match [where S = basic_str and kinds = "''Catering.Cafe''"
      and name = "''Chai STALL''", THEN conjunct2, THEN conjunct2, THEN conjunct1]
  note v = u [THEN mp, OF unknown]
  from a a' h h' r r' p p' v show ?thesis
    by (simp only: simp_thms)
qed

text \<open>
  C7 as it is stated has an unknown place kind return \<open>default\<close>. For the category
  \<open>museums\<close> the code computes no label, and the sentence it returns is in no pool of
  templates, so in no \<open>default\<close> pool.
\<close>

theorem unknown_kind_counterexample:
  "category_label basic_str ''Louvre'' ''museums'' ''museum'' \<noteq> Some ''default''
   \<and> fst (generate_insight basic_str counter_rng length_hash 0 ''Louvre'' ''museums'' ''museum'' 0)
        = Inr ''A great place to visit and explore.''
   \<and> ''A great place to visit and explore.'' \<notin> set all_templates"
  by code_simp

lemma counter_rng_in_range: "rng_in_range counter_rng"
  by (simp add: rng_in_range_def counter_rng_def)

text \<open>
  C8, as the code has it. For each of the three categories the pool selected has three
  different templates, and the sentence of \<open>generate_insight\<close> is the template at the
  index the generator draws right after it is seeded with \<open>hash(name) % 10000\<close>,
  followed by the text the rating adds; the state of the generator before the call
  plays no part. So two calls with the same name, category, tags and rating return the
  same sentence exactly when the two seeds draw the same index: always with one hash
  function, that is within one interpreter process, and not across processes, whose
  hash functions differ by their salt.
\<close>

theorem generate_insight_seeded_by_process_hash:
  assumes "category \<in> {''attractions'', ''hotels'', ''restaurants''}"
  shows "\<exists>pool. select_insights S name category kinds = Some (Inr pool)
     \<and> length pool = 3 \<and> distinct pool
     \<and> (\<forall>(R :: 'g rng) h g.
          fst (rng_randbelow R (rng_seed R (h name mod 10000)) 3) < 3 \<longrightarrow>
          fst (generate_insight S R h g name category kinds rating)
            = Inr (pool ! fst (rng_randbelow R (rng_seed R (h name mod 10000)) 3)
                   @ insight_suffix rating))
     \<and> (\<forall>(R :: 'g rng) h1 h2 g1 g2.
          fst (rng_randbelow R (rng_seed R (h1 name mod 10000)) 3) < 3
          \<and> fst (rng_randbelow R (rng_seed R (h2 name mod 10000)) 3) < 3 \<longrightarrow>
          (fst (generate_insight S R h1 g1 name category kinds rating)
             = fst (generate_insight S R h2 g2 name category kinds rating)
           \<longleftrightarrow> fst (rng_randbelow R (rng_seed R (h1 name mod 10000)) 3)
                = fst (rng_randbelow R (rng_seed R (h2 name mod 10000)) 3)))"
proof -
  from assms have "select_insights S name category kinds \<noteq> None"
    by (simp add: select_insights_None)
  then obtain r where r: "select_insights S name category kinds = Some r" by blast
  from select_insights_pool [OF r] obtain pool where
    sel: "select_insights S name category kinds = Some (Inr pool)" and
    pool: "pool \<in> snd ` set (ATTRACTION_INSIGHTS @ HOTEL_INSIGHTS @ RESTAURANT_INSIGHTS)"
    using r by blast
  from pools_nonempty [OF pool] have len: "length pool = 3" .
  then have ne: "pool \<noteq> []" by auto
  from pools_distinct [OF pool] have dist: "distinct pool" .
  have draw: "fst (generate_insight S R h g name category kinds rating)
            = Inr (pool ! fst (rng_randbelow R (rng_seed R (h name mod 10000)) 3)
                   @ insight_suffix rating)"
    if "fst (rng_randbelow R (rng_seed R (h name mod 10000)) 3) < 3"
    for R :: "'g rng" and h g
    using generate_insight_draw [OF sel ne, of R h g rating] that by (simp add: len)
  have same: "fst (generate_insight S R h1 g1 name category kinds rating)
             = fst (generate_insight S R h2 g2 name category kinds rating)
           \<longleftrightarrow> fst (rng_randbelow R (rng_seed R (h1 name mod 10000)) 3)
                = fst (rng_randbelow R (rng_seed R (h2 name mod 10000)) 3)"
    if "fst (rng_randbelow R (rng_seed R (h1 name mod 10000)) 3) < 3
          \<and> fst (rng_randbelow R (rng_seed R (h2 name mod 10000)) 3) < 3"
    for R :: "'g rng" and h1 h2 g1 g2
    using that dist len by (simp add: draw nth_eq_iff_index_eq)
  from sel len dist draw same show ?thesis by blast
qed

text \<open>
  The name \<open>Taj\<close> in the category \<open>hotels\<close>, under two hash functions whose seeds for
  the name are 4753 and 929, the values of \<open>hash('Taj') % 10000\<close> in two interpreter
  processes: the sentences differ. Under one hash function the sentence is the same
  from any two states of the generator.
\<close>

theorem generate_insight_seeded_by_process_hash_witness:
  "salted_hash 4750 ''Taj'' mod 10000 = 4753 \<and> salted_hash 926 ''Taj'' mod 10000 = 929
   \<and> fst (generate_insight basic_str counter_rng (salted_hash 4750) 0 ''Taj'' ''hotels'' [] 0)
       \<noteq> fst (generate_insight basic_str counter_rng (salted_hash 926) 0 ''Taj'' ''hotels'' [] 0)
   \<and> fst (generate_insight basic_str counter_rng (salted_hash 4750) 0 ''Taj'' ''hotels'' [] 0)
       = fst (generate_insight basic_str counter_rng (salted_hash 4750) 41 ''Taj'' ''hotels'' [] 0)"
proof -
  have cat: "''hotels'' \<in> {''attractions'', ''hotels'', ''restaurants''}" by simp
  have s1: "salted_hash 4750 ''Taj'' mod 10000 = 4753"
    and s2: "salted_hash 926 ''Taj'' mod 10000 = 929"
    by (simp_all add: salted_hash_def length_hash_def)
  have i1: "fst (rng_randbelow counter_rng
      (rng_seed counter_rng (salted_hash 4750 ''Taj'' mod 10000)) 3) = 1"
    and i2: "fst (rng_randbelow counter_rng
      (rng_seed counter_rng (salted_hash 926 ''Taj'' mod 10000)) 3) = 2"
    unfolding s1 s2 by (simp_all add: counter_rng_def)
  from generate_insight_seeded_by_process_hash [OF cat, where S = basic_str
      and name = "''Taj''" and kinds = "[]" and rating = 0 and ?'g = nat]
  obtain pool where same: "\<forall>(R :: nat rng) h1 h2 g1 g2.
          fst (rng_randbelow R (rng_seed R (h1 ''Taj'' mod 10000)) 3) < 3
          \<and> fst (rng_randbelow R (rng_seed R (h2 ''Taj'' mod 10000)) 3) < 3 \<longrightarrow>
          (fst (generate_insight basic_str R h1 g1 ''Taj'' ''hotels'' [] 0)
             = fst (generate_insight basic_str R h2 g2 ''Taj'' ''hotels'' [] 0)
           \<longleftrightarrow> fst (rng_randbelow R (rng_seed R (h1 ''Taj'' mod 10000)) 3)
                = fst (rng_randbelow R (rng_seed R (h2 ''Taj'' mod 10000)) 3))"
    by blast
  from same [THEN spec, THEN spec, THEN spec, THEN spec, THEN spec,
      of counter_rng "salted_hash 4750" "salted_hash 926" 0 0] i1 i2
  have differ: "fst (generate_insight basic_str counter_rng (salted_hash 4750) 0 ''Taj'' ''hotels'' [] 0)
       \<noteq> fst (generate_insight basic_str counter_rng (salted_hash 926) 0 ''Taj'' ''hotels'' [] 0)"
    by simp
  from same [THEN spec, THEN spec, THEN spec, THEN spec, THEN spec,
      of counter_rng "salted_hash 4750" "salted_hash 4750" 0 41] i1
  have equal: "fst (generate_insight basic_str counter_rng (salted_hash 4750) 0 ''Taj'' ''hotels'' [] 0)
       = fst (generate_insight basic_str counter_rng (salted_hash 4750) 41 ''Taj'' ''hotels'' [] 0)"
    by simp
  from s1 s2 differ equal show ?thesis by (intro conjI)
qed


section \<open>The enrichment pipeline\<close>

lemma estimate_price_range_no_keyword:
  "\<not> (\<exists>k \<in> set (LUXURY_KEYWORDS @ BUDGET_KEYWORDS @ MODERATE_KEYWORDS).
         sublist k (str_lower S (name @ '' '' @ kinds)))
   \<Longrightarrow> estimate_price_range S name kinds 0 = rupee1"
  unfolding estimate_price_range_def Let_def any_keyword_in_iff by auto

lemma in_set_map_filter:
  "y \<in> set (List.map_filter f xs) \<Longrightarrow> \<exists>x \<in> set xs. f x = Some y"
  by (induction xs) (auto split: option.splits)

lemma place_of_feature_zero:
  "place_of_feature hav lat lon f = Some p \<Longrightarrow>
     rp_rating p = Some 0 \<and> truthy_str (rp_name p) \<and> (\<exists>kinds. rp_kinds p = Some kinds)"
  by (auto simp: place_of_feature_def Let_def split: if_splits)

lemma fetched_rating_zero:
  "p \<in> set (fetch_places_from_geoapify hav key res lat lon) \<Longrightarrow>
     rp_rating p = Some 0 \<and> truthy_str (rp_name p) \<and> (\<exists>kinds. rp_kinds p = Some kinds)"
  by (auto simp: fetch_places_from_geoapify_def
      split: if_splits http_result.splits body.splits
      dest!: in_set_map_filter place_of_feature_zero)

lemma format_place_zero:
  assumes R: "rng_in_range R" and z: "rp_rating p = Some 0"
  shows "\<exists>r g'. format_place S R h md5 g category p = (Inr r, g')
           \<and> (\<forall>fp. r = Some fp \<longrightarrow> zero_enriched S R h md5 category p fp)"
proof (cases "truthy_str (rp_name p)")
  case False
  then show ?thesis by (simp add: format_place_def)
next
  case True
  then obtain name where name: "rp_name p = Some name"
    by (auto simp: truthy_str_def split: option.splits)
  let ?kinds = "case rp_kinds p of None \<Rightarrow> [] | Some k \<Rightarrow> k"
  from generate_insight_total [OF R, of S h g name category ?kinds 0]
  obtain s g' where
    gi: "generate_insight S R h g name category ?kinds 0 = (Inr s, g')" and
    s: "s = ''A great place to visit and explore.'' \<or> s \<in> set all_templates"
    by (auto simp: insight_suffix_zero)
  from gi have "fst (generate_insight S R h g name category ?kinds 0) = Inr s" by simp
  then have ex: "\<exists>g0. fst (generate_insight S R h g0 name category ?kinds 0) = Inr s" by blast
  from True name z gi s ex show ?thesis
    by (auto simp: format_place_def Let_def zero_enriched_def)
qed

lemma format_places_zero:
  assumes R: "rng_in_range R"
  shows "\<forall>p \<in> set ps. rp_rating p = Some 0 \<Longrightarrow>
     \<exists>out g'. format_places S R h md5 g category ps = (Inr out, g')
        \<and> (\<forall>fp \<in> set out. \<exists>p \<in> set ps. zero_enriched S R h md5 category p fp)"
proof (induction ps arbitrary: g)
  case Nil
  show ?case by simp
next
  case (Cons p ps)
  from Cons.prems have z: "rp_rating p = Some 0" and rest: "\<forall>q \<in> set ps. rp_rating q = Some 0"
    by simp_all
  from format_place_zero [OF R z, of S h md5 g category]
  obtain r g1 where
    fp: "format_place S R h md5 g category p = (Inr r, g1)" and
    r: "\<forall>fp. r = Some fp \<longrightarrow> zero_enriched S R h md5 category p fp"
    by blast
  from Cons.IH [OF rest, of g1]
  obtain out g2 where
    fps: "format_places S R h md5 g1 category ps = (Inr out, g2)" and
    out: "\<forall>fp \<in> set out. \<exists>q \<in> set ps. zero_enriched S R h md5 category q fp"
    by blast
  show ?case
  proof (cases r)
    case None
    with fp fps out show ?thesis by auto
  next
    case (Some x)
    with r have "zero_enriched S R h md5 category p x" by simp
    with Some fp fps out show ?thesis by auto
  qed
qed

lemma set_rank_places: "set (rank_places xs) = set xs"
  by (simp add: rank_places_def)

lemma templates_without_suffix:
  "list_all (\<lambda>t. \<not> suffix '' Highly rated by visitors!'' t \<and> \<not> suffix '' Well-loved by travelers.'' t)
     (''A great place to visit and explore.'' # all_templates)"
  by code_simp

lemma india_gate_fetch:
  "fetch_places_from_geoapify (\<lambda>a b c d. 0) True
      (Reply 200 (Json [\<lparr>pr_name = Some ''India Gate'', pr_formatted = None, pr_lat = None,
                         pr_lon = None, pr_categories = Some [''tourism'', ''tourism.sights''],
                         pr_distance = Some 1200\<rparr>])) 0 0
   = [\<lparr>rp_name = Some ''India Gate'', rp_address = None, rp_lat = None, rp_lon = None,
       rp_categories = [''tourism'', ''tourism.sights''],
       rp_kinds = Some ''tourism,tourism.sights'', rp_distance = Some (fl 1.2),
       rp_rating = Some 0\<rparr>]"
  by code_simp

lemma india_gate_run:
  "fst (format_place_data basic_str counter_rng length_hash length_digest 0
     [\<lparr>rp_name = Some ''India Gate'', rp_address = None, rp_lat = None, rp_lon = None,
       rp_categories = [''tourism'', ''tourism.sights''],
       rp_kinds = Some ''tourism,tourism.sights'', rp_distance = Some (fl 1.2),
       rp_rating = Some 0\<rparr>] ''attractions'')
   = Inr [\<lparr>pl_name = ''India Gate'', pl_category = ''attraction'', pl_rating = Some (fl 4.5),
           pl_review_count = None, pl_price_range = rupee1,
           pl_ai_insight = ''Worth a visit when exploring the city. Check reviews for best times.'',
           pl_distance = fl 1.2, pl_lat = None, pl_lon = None\<rparr>]"
  by code_simp

lemma india_gate_no_keyword:
  "\<not> (\<exists>k \<in> set (LUXURY_KEYWORDS @ BUDGET_KEYWORDS @ MODERATE_KEYWORDS).
          sublist k (str_lower basic_str (''India Gate'' @ '' '' @ ''tourism,tourism.sights'')))"
  by code_simp

text \<open>
  C3. Every place \<open>fetch_places_from_geoapify\<close> returns has the rating 0. With a
  generator that draws in range, \<open>format_place_data\<close> on these places returns a list,
  and every record of it comes from a fetched place of the same name whose tags
  \<open>kinds\<close> give: the price \<open>estimate_price_range S name kinds 0\<close>, which is one rupee sign
  when no price keyword occurs in the text; the insight \<open>generate_insight\<close> gives at
  rating 0, which is a template or the fixed sentence, with nothing added; and the rating
  \<open>generate_rating name\<close>, which the price and the insight never see. No template and
  not the fixed sentence ends with either text the rating can add.
\<close>

theorem pipeline_uses_rating_zero:
  assumes "rng_in_range R"
  shows "(\<forall>p \<in> set (fetch_places_from_geoapify hav key res lat lon). rp_rating p = Some 0)
   \<and> (\<exists>out g'.
        format_place_data S R h md5 g (fetch_places_from_geoapify hav key res lat lon) category
          = (Inr out, g')
        \<and> (\<forall>fp \<in> set out. \<exists>p \<in> set (fetch_places_from_geoapify hav key res lat lon). \<exists>kinds.
              rp_name p = Some (pl_name fp) \<and> rp_kinds p = Some kinds
            \<and> pl_price_range fp = estimate_price_range S (pl_name fp) kinds 0
            \<and> (\<not> (\<exists>k \<in> set (LUXURY_KEYWORDS @ BUDGET_KEYWORDS @ MODERATE_KEYWORDS).
                      sublist k (str_lower S (pl_name fp @ '' '' @ kinds)))
                 \<longrightarrow> pl_price_range fp = rupee1)
            \<and> (\<exists>g0. fst (generate_insight S R h g0 (pl_name fp) category kinds 0)
                        = Inr (pl_ai_insight fp))
            \<and> (pl_ai_insight fp \<in> set all_templates
                 \<or> pl_ai_insight fp = ''A great place to visit and explore.'')
            \<and> pl_rating fp = Some (generate_rating md5 (pl_name fp))))
   \<and> (\<forall>t \<in> set (''A great place to visit and explore.'' # all_templates).
         \<not> suffix '' Highly rated by visitors!'' t \<and> \<not> suffix '' Well-loved by travelers.'' t)"
proof (intro conjI)
  let ?raw = "fetch_places_from_geoapify hav key res lat lon"
  show z: "\<forall>p \<in> set ?raw. rp_rating p = Some 0"
    using fetched_rating_zero by blast
  from format_places_zero [OF assms z, of S h md5 g category]
  obtain out g' where
    fps: "format_places S R h md5 g category ?raw = (Inr out, g')" and
    out: "\<forall>fp \<in> set out. \<exists>p \<in> set ?raw. zero_enriched S R h md5 category p fp"
    by blast
  have "\<exists>p \<in> set ?raw. \<exists>kinds.
              rp_name p = Some (pl_name fp) \<and> rp_kinds p = Some kinds
            \<and> pl_price_range fp = estimate_price_range S (pl_name fp) kinds 0
            \<and> (\<not> (\<exists>k \<in> set (LUXURY_KEYWORDS @ BUDGET_KEYWORDS @ MODERATE_KEYWORDS).
                      sublist k (str_lower S (pl_name fp @ '' '' @ kinds)))
                 \<longrightarrow> pl_price_range fp = rupee1)
            \<and> (\<exists>g0. fst (generate_insight S R h g0 (pl_name fp) category kinds 0)
                        = Inr (pl_ai_insight fp))
            \<and> (pl_ai_insight fp \<in> set all_templates
                 \<or> pl_ai_insight fp = ''A great place to visit and explore.'')
            \<and> pl_rating fp = Some (generate_rating md5 (pl_name fp))"
    if "fp \<in> set (rank_places out)" for fp
  proof -
    from that have "fp \<in> set out" by (simp only: set_rank_places)
    with out obtain p where p: "p \<in> set ?raw" and e: "zero_enriched S R h md5 category p fp"
      by blast
    from fetched_rating_zero [OF p] obtain kinds where k: "rp_kinds p = Some kinds" by blast
    from e k have
      "rp_name p = Some (pl_name fp)"
      "pl_price_range fp = estimate_price_range S (pl_name fp) kinds 0"
      "\<exists>g0. fst (generate_insight S R h g0 (pl_name fp) category kinds 0) = Inr (pl_ai_insight fp)"
      "pl_ai_insight fp \<in> set all_templates \<or> pl_ai_insight fp = ''A great place to visit and explore.''"
      "pl_rating fp = Some (generate_rating md5 (pl_name fp))"
      by (simp_all add: zero_enriched_def)
    with p k estimate_price_range_no_keyword [of S "pl_name fp" kinds] show ?thesis
      by metis
  qed
  with fps show "\<exists>out g'.
        format_place_data S R h md5 g ?raw category = (Inr out, g')
        \<and> (\<forall>fp \<in> set out. \<exists>p \<in> set ?raw. \<exists>kinds.
              rp_name p = Some (pl_name fp) \<and> rp_kinds p = Some kinds
            \<and> pl_price_range fp = estimate_price_range S (pl_name fp) kinds 0
            \<and> (\<not> (\<exists>k \<in> set (LUXURY_KEYWORDS @ BUDGET_KEYWORDS @ MODERATE_KEYWORDS).
                      sublist k (str_lower S (pl_name fp @ '' '' @ kinds)))
                 \<longrightarrow> pl_price_range fp = rupee1)
            \<and> (\<exists>g0. fst (generate_insight S R h g0 (pl_name fp) category kinds 0)
                        = Inr (pl_ai_insight fp))
            \<and> (pl_ai_insight fp \<in> set all_templates
                 \<or> pl_ai_insight fp = ''A great place to visit and explore.'')
            \<and> pl_rating fp = Some (generate_rating md5 (pl_name fp)))"
    by (simp add: format_place_data_def)
  show "\<forall>t \<in> set (''A great place to visit and explore.'' # all_templates).
         \<not> suffix '' Highly rated by visitors!'' t \<and> \<not> suffix '' Well-loved by travelers.'' t"
    using templates_without_suffix by (simp only: list_all_iff)
qed

theorem pipeline_uses_rating_zero_witness:
  "fst (format_place_data basic_str counter_rng length_hash length_digest 0
     (fetch_places_from_geoapify (\<lambda>a b c d. 0) True
        (Reply 200 (Json [\<lparr>pr_name = Some ''India Gate'', pr_formatted = None, pr_lat = None,
                           pr_lon = None, pr_categories = Some [''tourism'', ''tourism.sights''],
                           pr_distance = Some 1200\<rparr>])) 0 0)
     ''attractions'')
   = Inr [\<lparr>pl_name = ''India Gate'', pl_category = ''attraction'', pl_rating = Some (fl 4.5),
           pl_review_count = None, pl_price_range = rupee1,
           pl_ai_insight = ''Worth a visit when exploring the city. Check reviews for best times.'',
           pl_distance = fl 1.2, pl_lat = None, pl_lon = None\<rparr>]
   \<and> generate_rating length_digest ''India Gate'' = fl 4.5
   \<and> estimate_price_range basic_str ''India Gate'' ''tourism,tourism.sights'' 0 = rupee1"
proof -
  let ?fp = "\<lparr>pl_name = ''India Gate'', pl_category = ''attraction'', pl_rating = Some (fl 4.5),
           pl_review_count = None, pl_price_range = rupee1,
           pl_ai_insight = ''Worth a visit when exploring the city. Check reviews for best times.'',
           pl_distance = fl 1.2, pl_lat = None, pl_lon = None\<rparr>"
  from pipeline_uses_rating_zero [OF counter_rng_in_range,
      where S = basic_str and hav = "\<lambda>a b c d. 0" and key = True and lat = 0 and lon = 0
        and res = "Reply 200 (Json [\<lparr>pr_name = Some ''India Gate'', pr_formatted = None,
                           pr_lat = None, pr_lon = None,
                           pr_categories = Some [''tourism'', ''tourism.sights''],
                           pr_distance = Some 1200\<rparr>])"
        and h = length_hash and ?md5.0 = length_digest and g = 0 and category = "''attractions''"]
  obtain out g' where
    run: "format_place_data basic_str counter_rng length_hash length_digest 0
       [\<lparr>rp_name = Some ''India Gate'', rp_address = None, rp_lat = None, rp_lon = None,
         rp_categories = [''tourism'', ''tourism.sights''],
         rp_kinds = Some ''tourism,tourism.sights'', rp_distance = Some (fl 1.2),
         rp_rating = Some 0\<rparr>] ''attractions'' = (Inr out, g')" and
    each: "\<forall>fp \<in> set out. \<exists>kinds. Some ''tourism,tourism.sights'' = Some kinds
        \<and> pl_price_range fp = estimate_price_range basic_str (pl_name fp) kinds 0
        \<and> (\<not> (\<exists>k \<in> set (LUXURY_KEYWORDS @ BUDGET_KEYWORDS @ MODERATE_KEYWORDS).
                  sublist k (str_lower basic_str (pl_name fp @ '' '' @ kinds)))
             \<longrightarrow> pl_price_range fp = rupee1)
        \<and> pl_rating fp = Some (generate_rating length_digest (pl_name fp))"
    unfolding india_gate_fetch by fastforce
  from run india_gate_run have out: "out = [?fp]" by simp
  from each out have
    "rupee1 = estimate_price_range basic_str ''India Gate'' ''tourism,tourism.sights'' 0"
    "Some (fl 4.5) = Some (generate_rating length_digest ''India Gate'')"
    by auto
  with india_gate_run show ?thesis
    unfolding india_gate_fetch by simp
qed

end
